theory Spec2Isabelle
  imports Complex_Main "HOL-Library.Word" "HOL-Library.Monad_Syntax"
begin

section \<open>Go strings, runes and case folding\<close>

text \<open>
  A Go \<open>string\<close> is a sequence of bytes; so is a HOL \<open>string\<close> (a list of 8-bit
  \<open>char\<close>s). A \<open>rune\<close> is a Unicode code point, an \<open>int32\<close> that is never negative
  here, modelled as a natural number.
\<close>

type_synonym rune = nat

definition RuneSelf :: rune where
  "RuneSelf = 0x80"

definition RuneError :: rune where
  "RuneError = 0xFFFD"

text \<open>
  \<open>utf8.DecodeRuneInString\<close>: the first rune of a string and its width in bytes.
  An invalid or truncated encoding yields \<open>(RuneError, 1)\<close>, the empty string
  \<open>(RuneError, 0)\<close>. The table \<open>first\<close> of package \<open>utf8\<close> classifies the leading
  byte: \<open>0xF0\<close> is ASCII, \<open>0xF1\<close> is invalid, otherwise the low three bits are the
  width and the high four bits select the range accepted for the second byte.
\<close>

definition utf8_first :: "nat \<Rightarrow> nat" where
  "utf8_first s0 =
     (if s0 < 0x80 then 0xF0
      else if s0 < 0xC2 then 0xF1
      else if s0 < 0xE0 then 0x02
      else if s0 = 0xE0 then 0x13
      else if s0 < 0xED then 0x03
      else if s0 = 0xED then 0x23
      else if s0 < 0xF0 then 0x03
      else if s0 = 0xF0 then 0x34
      else if s0 < 0xF4 then 0x04
      else if s0 = 0xF4 then 0x44
      else 0xF1)"

definition acceptRanges :: "nat \<Rightarrow> nat \<times> nat" where
  "acceptRanges i =
     (if i = 0 then (0x80, 0xBF)
      else if i = 1 then (0xA0, 0xBF)
      else if i = 2 then (0x80, 0x9F)
      else if i = 3 then (0x90, 0xBF)
      else (0x80, 0x8F))"

definition DecodeRuneInString :: "string \<Rightarrow> rune \<times> nat" where
  "DecodeRuneInString s =
     (case map of_char s of
        [] \<Rightarrow> (RuneError, 0)
      | s0 # rest \<Rightarrow>
          (let x = utf8_first s0 in
           if x \<ge> 0xF0 then (if x = 0xF1 then (RuneError, 1) else (s0, 1))
           else
             (let sz = x mod 8; (lo, hi) = acceptRanges (x div 16) in
              if length s < sz then (RuneError, 1)
              else
                (case rest of
                   [] \<Rightarrow> (RuneError, 1)
                 | s1 # rest1 \<Rightarrow>
                     if s1 < lo \<or> hi < s1 then (RuneError, 1)
                     else if sz \<le> 2 then ((s0 mod 32) * 64 + s1 mod 64, 2)
                     else
                       (case rest1 of
                          [] \<Rightarrow> (RuneError, 1)
                        | s2 # rest2 \<Rightarrow>
                            if s2 < 0x80 \<or> 0xBF < s2 then (RuneError, 1)
                            else if sz \<le> 3
                              then ((s0 mod 16) * 4096 + (s1 mod 64) * 64 + s2 mod 64, 3)
                            else
                              (case rest2 of
                                 [] \<Rightarrow> (RuneError, 1)
                               | s3 # rest3 \<Rightarrow>
                                   if s3 < 0x80 \<or> 0xBF < s3 then (RuneError, 1)
                                   else ((s0 mod 8) * 262144 + (s1 mod 64) * 4096
                                         + (s2 mod 64) * 64 + s3 mod 64, 4)))))))"

text \<open>
  \<open>unicode.SimpleFold\<close> steps through the orbit of runes that are equal under
  simple case folding. For an ASCII rune it reads the table \<open>asciiFold\<close>: a letter
  maps to its other case, except that \<open>k\<close> maps to the Kelvin sign U+212A and \<open>s\<close>
  to the long s U+017F, which map back to \<open>K\<close> and \<open>S\<close>; every other ASCII rune
  maps to itself. These are all the orbits that hold an ASCII rune, and they are
  modelled exactly. The orbits of the other runes come from the Unicode tables of the
  Go library, which are not modelled: outside the orbits above the model treats a
  rune as its own orbit. A comparison against an ASCII string, as each state name and
  each field name of this program is, consults \<open>SimpleFold\<close> only on the orbit of
  an ASCII rune.
\<close>

definition SimpleFold :: "rune \<Rightarrow> rune" where
  "SimpleFold r =
     (if r = 0x6B then 0x212A
      else if r = 0x73 then 0x017F
      else if 0x41 \<le> r \<and> r \<le> 0x5A then r + 0x20
      else if 0x61 \<le> r \<and> r \<le> 0x7A then r - 0x20
      else if r = 0x212A then 0x4B
      else if r = 0x017F then 0x53
      else r)"

text \<open>
  The loop \<open>for r != sr && r < tr { r = unicode.SimpleFold(r) }\<close> of
  \<open>strings.EqualFold\<close>; \<open>None\<close> is a loop that does not end.
\<close>

partial_function (option) foldWalk :: "rune \<Rightarrow> rune \<Rightarrow> rune \<Rightarrow> rune option" where
  "foldWalk sr tr r = (if r \<noteq> sr \<and> r < tr then foldWalk sr tr (SimpleFold r) else Some r)"

declare foldWalk.simps [code]

text \<open>
  The body of the rune loop of \<open>strings.EqualFold\<close>: are the runes \<open>sr0\<close> and
  \<open>tr0\<close> equal under simple case folding?
\<close>

definition runeEqualFold :: "rune \<Rightarrow> rune \<Rightarrow> bool" where
  "runeEqualFold sr0 tr0 =
     (if tr0 = sr0 then True
      else
        (let sr = min sr0 tr0; tr = max sr0 tr0 in
         if tr < RuneSelf then 0x41 \<le> sr \<and> sr \<le> 0x5A \<and> tr = sr + 0x20
         else foldWalk sr tr (SimpleFold sr) = Some tr))"

text \<open>
  The second phase of \<open>strings.EqualFold\<close> (label \<open>hasUnicode\<close>): range over the
  runes of \<open>s\<close>, taking one rune off \<open>t\<close> for each.
\<close>

fun EqualFold_hasUnicode :: "string \<Rightarrow> string \<Rightarrow> bool" where
  "EqualFold_hasUnicode [] t = (t = [])"
| "EqualFold_hasUnicode (c # cs) [] = False"
| "EqualFold_hasUnicode (c # cs) (d # ds) =
     (let (sr, n) = DecodeRuneInString (c # cs);
          (tr, m) = (if of_char d < RuneSelf then (of_char d, 1)
                     else DecodeRuneInString (d # ds))
      in if runeEqualFold sr tr
         then EqualFold_hasUnicode (drop (n - 1) cs) (drop (m - 1) ds)
         else False)"

text \<open>
  \<open>strings.EqualFold\<close>: the ASCII fast path compares byte by byte and jumps to
  the second phase at the first position where either byte is not ASCII.
  \<open>asciiEqualFold\<close> is the body of that loop: the bytes are equal, or the smaller
  is an upper-case letter and the larger its lower case.
\<close>

definition asciiEqualFold :: "nat \<Rightarrow> nat \<Rightarrow> bool" where
  "asciiEqualFold sr0 tr0 =
     (if tr0 = sr0 then True
      else
        (let sr = min sr0 tr0; tr = max sr0 tr0 in
         0x41 \<le> sr \<and> sr \<le> 0x5A \<and> tr = sr + 0x20))"

fun EqualFold :: "string \<Rightarrow> string \<Rightarrow> bool" where
  "EqualFold [] [] = True"
| "EqualFold [] (d # ds) = False"
| "EqualFold (c # cs) [] = False"
| "EqualFold (c # cs) (d # ds) =
     (if (of_char c :: nat) \<ge> RuneSelf \<or> (of_char d :: nat) \<ge> RuneSelf
      then EqualFold_hasUnicode (c # cs) (d # ds)
      else if asciiEqualFold (of_char c) (of_char d) then EqualFold cs ds
      else False)"

text \<open>
  \<open>strconv.FormatUint(i, 10)\<close>: the decimal digits of \<open>i\<close>, most significant
  first, with no sign and no leading zero, read from the digit table of package
  \<open>strconv\<close>.
\<close>

definition digits :: string where
  "digits = ''0123456789abcdefghijklmnopqrstuvwxyz''"

fun FormatUint_10 :: "nat \<Rightarrow> string" where
  "FormatUint_10 i =
     (if i < 10 then [digits ! i]
      else FormatUint_10 (i div 10) @ [digits ! (i mod 10)])"

declare FormatUint_10.simps [simp del]

section \<open>Decoding the input: package encoding/json\<close>

text \<open>
  \<open>json.Unmarshal\<close> first checks that the whole input is one well-formed JSON
  text, and only then stores the values into the destination. The model does the
  same in three steps: a scanner that reads the bytes one at a time and yields the
  tokens of the text, a parser that builds the JSON value from the tokens, and the
  type-directed stores into the structs of this program.
\<close>

datatype json =
    JNull
  | JBool bool
  | JNumber string
  | JString string
  | JArray "json list"
  | JObject "(string \<times> json) list"

datatype error = SyntaxError | UnmarshalTypeError string

subsection \<open>String literals\<close>

text \<open>
  \<open>utf8.EncodeRune\<close>: the UTF-8 encoding of a rune; a surrogate or a rune beyond
  U+10FFFF is encoded as \<open>RuneError\<close>.
\<close>

definition EncodeRune :: "rune \<Rightarrow> string" where
  "EncodeRune r0 =
     (let r = (if 0x10FFFF < r0 \<or> (0xD800 \<le> r0 \<and> r0 \<le> 0xDFFF) then RuneError else r0) in
      if r \<le> 0x7F then [char_of r]
      else if r \<le> 0x7FF then [char_of (0xC0 + r div 64), char_of (0x80 + r mod 64)]
      else if r \<le> 0xFFFF
        then [char_of (0xE0 + r div 4096), char_of (0x80 + (r div 64) mod 64),
              char_of (0x80 + r mod 64)]
      else [char_of (0xF0 + r div 262144), char_of (0x80 + (r div 4096) mod 64),
            char_of (0x80 + (r div 64) mod 64), char_of (0x80 + r mod 64)])"

definition hexval :: "char \<Rightarrow> nat option" where
  "hexval c =
     (let n = (of_char c :: nat) in
      if 0x30 \<le> n \<and> n \<le> 0x39 then Some (n - 0x30)
      else if 0x61 \<le> n \<and> n \<le> 0x66 then Some (n - 0x61 + 10)
      else if 0x41 \<le> n \<and> n \<le> 0x46 then Some (n - 0x41 + 10)
      else None)"

text \<open>\<open>getu4\<close>: the rune of a leading \<open>\uXXXX\<close> escape, if there is one.\<close>

definition getu4 :: "string \<Rightarrow> rune option" where
  "getu4 s =
     (case s of
        b # u # h1 # h2 # h3 # h4 # rest \<Rightarrow>
          if b = CHR 0x5C \<and> u = CHR ''u'' then
            (case (hexval h1, hexval h2, hexval h3, hexval h4) of
               (Some a, Some b, Some c, Some d) \<Rightarrow> Some (((a * 16 + b) * 16 + c) * 16 + d)
             | _ \<Rightarrow> None)
          else None
      | _ \<Rightarrow> None)"

definition IsSurrogate :: "rune \<Rightarrow> bool" where
  "IsSurrogate r = (0xD800 \<le> r \<and> r < 0xE000)"

text \<open>\<open>utf16.DecodeRune\<close> on a first rune and the optional rune that follows it.\<close>

definition utf16_DecodeRune :: "rune \<Rightarrow> rune option \<Rightarrow> rune" where
  "utf16_DecodeRune r1 r2opt =
     (case r2opt of
        None \<Rightarrow> RuneError
      | Some r2 \<Rightarrow>
          if 0xD800 \<le> r1 \<and> r1 < 0xDC00 \<and> 0xDC00 \<le> r2 \<and> r2 < 0xE000
          then (r1 - 0xD800) * 1024 + (r2 - 0xDC00) + 0x10000
          else RuneError)"

definition simple_escape :: "char \<Rightarrow> char option" where
  "simple_escape e =
     (if e = CHR 0x22 \<or> e = CHR 0x5C \<or> e = CHR ''/'' then Some e
      else if e = CHR ''b'' then Some (CHR 0x08)
      else if e = CHR ''f'' then Some (CHR 0x0C)
      else if e = CHR ''n'' then Some (CHR 0x0A)
      else if e = CHR ''r'' then Some (CHR 0x0D)
      else if e = CHR ''t'' then Some (CHR 0x09)
      else None)"

text \<open>
  \<open>unquote\<close>: the string that the text between the quotes of a JSON string literal
  denotes. Escapes are replaced by the bytes they stand for, a \<open>\uXXXX\<close> escape by
  the UTF-8 encoding of its rune (two escapes that form a surrogate pair by the rune
  of the pair, a lone surrogate by U+FFFD), and bytes that are not well-formed UTF-8
  by the encoding of U+FFFD. \<open>None\<close> is an invalid literal.
\<close>

fun unquote :: "string \<Rightarrow> string option" where
  "unquote [] = Some []"
| "unquote (c # cs) =
     (if c = CHR 0x5C then
        (case cs of
           [] \<Rightarrow> None
         | e # es \<Rightarrow>
             if e = CHR ''u'' then
               (case getu4 (c # cs) of
                  None \<Rightarrow> None
                | Some rr \<Rightarrow>
                    if IsSurrogate rr then
                      (let dec = utf16_DecodeRune rr (getu4 (drop 5 cs)) in
                       if dec \<noteq> RuneError
                       then map_option ((@) (EncodeRune dec)) (unquote (drop 11 cs))
                       else map_option ((@) (EncodeRune RuneError)) (unquote (drop 5 cs)))
                    else map_option ((@) (EncodeRune rr)) (unquote (drop 5 cs)))
             else
               (case simple_escape e of
                  None \<Rightarrow> None
                | Some b \<Rightarrow> map_option ((#) b) (unquote es)))
      else if c = CHR 0x22 \<or> (of_char c :: nat) < 0x20 then None
      else if (of_char c :: nat) < RuneSelf then map_option ((#) c) (unquote cs)
      else
        map_option ((@) (EncodeRune (fst (DecodeRuneInString (c # cs)))))
          (unquote (drop (snd (DecodeRuneInString (c # cs)) - 1) cs)))"

subsection \<open>The scanner\<close>

datatype token =
    TBeginObject | TEndObject | TBeginArray | TEndArray | TComma | TColon
  | TValue json

datatype numstate = NNeg | N0 | N1 | NDot | NDot0 | NE | NESign | NE0

datatype scanmode =
    ScanDefault
  | InString string
  | InStringEsc string
  | InStringEscU string nat
  | InNumber numstate string
  | InLiteral string json

definition isSpace :: "char \<Rightarrow> bool" where
  "isSpace c = (c = CHR '' '' \<or> c = CHR 0x09 \<or> c = CHR 0x0D \<or> c = CHR 0x0A)"

definition isDigit :: "char \<Rightarrow> bool" where
  "isDigit c = (0x30 \<le> (of_char c :: nat) \<and> (of_char c :: nat) \<le> 0x39)"

text \<open>
  A number ends at the first byte that cannot continue it. After a value only
  white space, a comma or a closing bracket or brace is accepted.
\<close>

definition endNumber :: "string \<Rightarrow> char \<Rightarrow> (token list \<times> scanmode) option" where
  "endNumber lit c =
     (if isSpace c then Some ([TValue (JNumber lit)], ScanDefault)
      else if c = CHR '','' then Some ([TValue (JNumber lit), TComma], ScanDefault)
      else if c = CHR '']'' then Some ([TValue (JNumber lit), TEndArray], ScanDefault)
      else if c = CHR ''}'' then Some ([TValue (JNumber lit), TEndObject], ScanDefault)
      else None)"

definition isExp :: "char \<Rightarrow> bool" where
  "isExp c = (c = CHR ''e'' \<or> c = CHR ''E'')"

definition stepN0 :: "string \<Rightarrow> char \<Rightarrow> (token list \<times> scanmode) option" where
  "stepN0 lit c =
     (if c = CHR ''.'' then Some ([], InNumber NDot (lit @ [c]))
      else if isExp c then Some ([], InNumber NE (lit @ [c]))
      else endNumber lit c)"

definition stepNESign :: "string \<Rightarrow> char \<Rightarrow> (token list \<times> scanmode) option" where
  "stepNESign lit c =
     (if isDigit c then Some ([], InNumber NE0 (lit @ [c])) else None)"

fun stepNumber :: "numstate \<Rightarrow> string \<Rightarrow> char \<Rightarrow> (token list \<times> scanmode) option" where
  "stepNumber NNeg lit c =
     (if c = CHR ''0'' then Some ([], InNumber N0 (lit @ [c]))
      else if isDigit c then Some ([], InNumber N1 (lit @ [c]))
      else None)"
| "stepNumber N1 lit c =
     (if isDigit c then Some ([], InNumber N1 (lit @ [c]))
      else stepN0 lit c)"
| "stepNumber N0 lit c = stepN0 lit c"
| "stepNumber NDot lit c =
     (if isDigit c then Some ([], InNumber NDot0 (lit @ [c])) else None)"
| "stepNumber NDot0 lit c =
     (if isDigit c then Some ([], InNumber NDot0 (lit @ [c]))
      else if isExp c then Some ([], InNumber NE (lit @ [c]))
      else endNumber lit c)"
| "stepNumber NE lit c =
     (if c = CHR ''+'' \<or> c = CHR ''-'' then Some ([], InNumber NESign (lit @ [c]))
      else stepNESign lit c)"
| "stepNumber NESign lit c = stepNESign lit c"
| "stepNumber NE0 lit c =
     (if isDigit c then Some ([], InNumber NE0 (lit @ [c]))
      else endNumber lit c)"

text \<open>
  One step of the scanner: the tokens that the byte completes and the mode for the
  next byte, or \<open>None\<close> for a byte that is not allowed here.
\<close>

fun scanStep :: "scanmode \<Rightarrow> char \<Rightarrow> (token list \<times> scanmode) option" where
  "scanStep ScanDefault c =
     (if isSpace c then Some ([], ScanDefault)
      else if c = CHR ''{'' then Some ([TBeginObject], ScanDefault)
      else if c = CHR ''}'' then Some ([TEndObject], ScanDefault)
      else if c = CHR ''['' then Some ([TBeginArray], ScanDefault)
      else if c = CHR '']'' then Some ([TEndArray], ScanDefault)
      else if c = CHR '','' then Some ([TComma], ScanDefault)
      else if c = CHR '':'' then Some ([TColon], ScanDefault)
      else if c = CHR 0x22 then Some ([], InString [])
      else if c = CHR ''-'' then Some ([], InNumber NNeg [c])
      else if c = CHR ''0'' then Some ([], InNumber N0 [c])
      else if isDigit c then Some ([], InNumber N1 [c])
      else if c = CHR ''t'' then Some ([], InLiteral ''rue'' (JBool True))
      else if c = CHR ''f'' then Some ([], InLiteral ''alse'' (JBool False))
      else if c = CHR ''n'' then Some ([], InLiteral ''ull'' JNull)
      else None)"
| "scanStep (InString raw) c =
     (if c = CHR 0x22 then
        (case unquote raw of
           None \<Rightarrow> None
         | Some s \<Rightarrow> Some ([TValue (JString s)], ScanDefault))
      else if c = CHR 0x5C then Some ([], InStringEsc (raw @ [c]))
      else if (of_char c :: nat) < 0x20 then None
      else Some ([], InString (raw @ [c])))"
| "scanStep (InStringEsc raw) c =
     (if c = CHR ''u'' then Some ([], InStringEscU (raw @ [c]) 4)
      else if simple_escape c \<noteq> None then Some ([], InString (raw @ [c]))
      else None)"
| "scanStep (InStringEscU raw n) c =
     (if hexval c = None then None
      else if n \<le> 1 then Some ([], InString (raw @ [c]))
      else Some ([], InStringEscU (raw @ [c]) (n - 1)))"
| "scanStep (InNumber st lit) c = stepNumber st lit c"
| "scanStep (InLiteral rest v) c =
     (case rest of
        [] \<Rightarrow> None
      | r # rs \<Rightarrow>
          if c \<noteq> r then None
          else if rs = [] then Some ([TValue v], ScanDefault)
          else Some ([], InLiteral rs v))"

text \<open>At the end of the input a number may be pending; nothing else may be open.\<close>

fun scanEOF :: "scanmode \<Rightarrow> token list option" where
  "scanEOF ScanDefault = Some []"
| "scanEOF (InNumber st lit) =
     (if st = N0 \<or> st = N1 \<or> st = NDot0 \<or> st = NE0 then Some [TValue (JNumber lit)] else None)"
| "scanEOF _ = None"

fun scan :: "scanmode \<Rightarrow> string \<Rightarrow> token list option" where
  "scan m [] = scanEOF m"
| "scan m (c # cs) =
     (case scanStep m c of
        None \<Rightarrow> None
      | Some (toks, m') \<Rightarrow> map_option ((@) toks) (scan m' cs))"

subsection \<open>The parser\<close>

text \<open>
  The parser keeps the stack of the arrays and objects that are open, as the scanner
  of the Go library keeps its parse state; it refuses to nest deeper than
  \<open>maxNestingDepth\<close>. An open object remembers the key that waits for its value.
\<close>

datatype frame = FArray "json list" | FObject "(string \<times> json) list" string

datatype parsemode =
    BeginValue
  | BeginValueOrEmpty
  | BeginStringOrEmpty
  | BeginString
  | ObjectKey
  | EndValue
  | EndTop json

definition maxNestingDepth :: nat where
  "maxNestingDepth = 10000"

text \<open>A value is complete: it is the top-level value, or goes into the open container.\<close>

fun endValue :: "json \<Rightarrow> frame list \<Rightarrow> frame list \<times> parsemode" where
  "endValue v [] = ([], EndTop v)"
| "endValue v (FArray es # st) = (FArray (es @ [v]) # st, EndValue)"
| "endValue v (FObject kvs k # st) = (FObject (kvs @ [(k, v)]) k # st, EndValue)"

definition beginValue :: "frame list \<Rightarrow> token \<Rightarrow> (frame list \<times> parsemode) option" where
  "beginValue st tok =
     (case tok of
        TValue v \<Rightarrow> Some (endValue v st)
      | TBeginArray \<Rightarrow>
          if length st < maxNestingDepth then Some (FArray [] # st, BeginValueOrEmpty) else None
      | TBeginObject \<Rightarrow>
          if length st < maxNestingDepth then Some (FObject [] [] # st, BeginStringOrEmpty)
          else None
      | _ \<Rightarrow> None)"

definition beginString :: "frame list \<Rightarrow> token \<Rightarrow> (frame list \<times> parsemode) option" where
  "beginString st tok =
     (case (tok, st) of
        (TValue (JString k), FObject kvs _ # st') \<Rightarrow> Some (FObject kvs k # st', ObjectKey)
      | _ \<Rightarrow> None)"

fun parseStep :: "frame list \<Rightarrow> parsemode \<Rightarrow> token \<Rightarrow> (frame list \<times> parsemode) option" where
  "parseStep st BeginValue tok = beginValue st tok"
| "parseStep st BeginValueOrEmpty tok =
     (case (tok, st) of
        (TEndArray, FArray es # st') \<Rightarrow> Some (endValue (JArray es) st')
      | _ \<Rightarrow> beginValue st tok)"
| "parseStep st BeginStringOrEmpty tok =
     (case (tok, st) of
        (TEndObject, FObject kvs _ # st') \<Rightarrow> Some (endValue (JObject kvs) st')
      | _ \<Rightarrow> beginString st tok)"
| "parseStep st BeginString tok = beginString st tok"
| "parseStep st ObjectKey tok = (if tok = TColon then Some (st, BeginValue) else None)"
| "parseStep st EndValue tok =
     (case (tok, st) of
        (TComma, FArray es # st') \<Rightarrow> Some (st, BeginValue)
      | (TEndArray, FArray es # st') \<Rightarrow> Some (endValue (JArray es) st')
      | (TComma, FObject kvs k # st') \<Rightarrow> Some (st, BeginString)
      | (TEndObject, FObject kvs k # st') \<Rightarrow> Some (endValue (JObject kvs) st')
      | _ \<Rightarrow> None)"
| "parseStep st (EndTop v) tok = None"

fun parse :: "frame list \<Rightarrow> parsemode \<Rightarrow> token list \<Rightarrow> json option" where
  "parse st (EndTop v) [] = Some v"
| "parse st m [] = None"
| "parse st m (tok # toks) =
     (case parseStep st m tok of
        None \<Rightarrow> None
      | Some (st', m') \<Rightarrow> parse st' m' toks)"

text \<open>The JSON value of a byte buffer; \<open>None\<close> when it is not one JSON text.\<close>

definition json_parse :: "string \<Rightarrow> json option" where
  "json_parse b =
     (case scan ScanDefault b of
        None \<Rightarrow> None
      | Some toks \<Rightarrow> parse [] BeginValue toks)"

section \<open>Observations and the sink\<close>

text \<open>
  An observation is what \<open>prometheus.MustNewConstMetric\<close> builds: a descriptor, a
  kind, a value and the positional label values. A \<open>float64\<close> value is modelled as
  a real number: the program only stores 0, 1 and converted \<open>uint32\<close> counters,
  all of which \<open>float64\<close> represents exactly. The sink, a send-only channel of
  metrics, is the list of the observations sent so far, in the order sent.
\<close>

datatype ValueType = CounterValue | GaugeValue

record Desc =
  fqName :: string
  helpText :: string
  variableLabels :: "string list"

record Metric =
  desc :: Desc
  valType :: ValueType
  val :: real
  labelValues :: "string list"

type_synonym sink = "Metric list"

text \<open>
  Modelled from the spec: \<open>newGauge\<close> and \<open>newCounter\<close>, the two emission helpers
  of the repository, whose source is not among the files given. They send one
  observation of their kind with the descriptor, value and label values given; the
  label values are positional and must match the label names of the descriptor in
  number, a mismatch being fatal. \<open>None\<close> is that fatal outcome; a descriptor that
  is missing from the map (a nil pointer in Go) is fatal as well.
\<close>

definition newMetric :: "ValueType \<Rightarrow> sink \<Rightarrow> Desc option \<Rightarrow> real \<Rightarrow> string list \<Rightarrow> sink option" where
  "newMetric k ch descName metric labels =
     (case descName of
        None \<Rightarrow> None
      | Some d \<Rightarrow>
          if length labels = length (variableLabels d)
          then Some (ch @ [\<lparr>desc = d, valType = k, val = metric, labelValues = labels\<rparr>])
          else None)"

definition newGauge :: "sink \<Rightarrow> Desc option \<Rightarrow> real \<Rightarrow> string list \<Rightarrow> sink option" where
  "newGauge = newMetric GaugeValue"

definition newCounter :: "sink \<Rightarrow> Desc option \<Rightarrow> real \<Rightarrow> string list \<Rightarrow> sink option" where
  "newCounter = newMetric CounterValue"

text \<open>
  Modelled from the spec: \<open>colPromDesc\<close>, the descriptor constructor of the
  repository, whose source is not among the files given. The metric identity is
  \<open><namespace>_<subsystem>_<name>\<close> with the label names given; the namespace is
  \<open>frr\<close>, as the expected metric names of the BFD test show.
\<close>

definition namespace :: string where
  "namespace = ''frr''"

definition colPromDesc :: "string \<Rightarrow> string \<Rightarrow> string \<Rightarrow> string list \<Rightarrow> Desc" where
  "colPromDesc subsystem metricName metricDescription labels =
     \<lparr>fqName = namespace @ ''_'' @ subsystem @ ''_'' @ metricName,
      helpText = metricDescription,
      variableLabels = labels\<rparr>"

section \<open>The VRRP collector\<close>

definition vrrpStatusInitialize :: string where
  "vrrpStatusInitialize = ''Initialize''"

definition vrrpStatusBackup :: string where
  "vrrpStatusBackup = ''Backup''"

definition vrrpStatusMaster :: string where
  "vrrpStatusMaster = ''Master''"

definition vrrpSubsystem :: string where
  "vrrpSubsystem = ''vrrp''"

definition vrrpStates :: "string list" where
  "vrrpStates = [vrrpStatusInitialize, vrrpStatusMaster, vrrpStatusBackup]"

text \<open>
  The three structs of the decoded input. A \<open>*uint32\<close> counter is an option:
  \<open>None\<close> is the nil pointer.
\<close>

record VrrpInstanceStats =
  AdverTx :: "32 word option"
  AdverRx :: "32 word option"
  GarpTx :: "32 word option"
  NeighborAdverTx :: "32 word option"
  Transitions :: "32 word option"

record VrrpInstanceInfo =
  Subinterface :: string
  Status :: string
  Statistics :: VrrpInstanceStats

record VrrpVrInfo =
  Vrid :: "32 word"
  Interface :: string
  V6Info :: VrrpInstanceInfo
  V4Info :: VrrpInstanceInfo

subsection \<open>Storing a JSON value into the structs\<close>

text \<open>
  \<open>json.Unmarshal\<close> stores a JSON value into a Go value of a given type, which
  already holds a value. The rules of the library that the types of this program
  reach:
  \<^item> \<open>null\<close> leaves a number, a string or a struct as it is and sets a pointer or
    a slice to nil;
  \<^item> a number is stored into a \<open>uint32\<close> when its literal is a sequence of digits
    whose value fits 32 bits, a string into a \<open>string\<close>, an object into a struct,
    an array into a slice; a pointer is allocated and the value stored into what it
    points to;
  \<^item> a key of an object selects the field whose name (the tag, or the Go name when
    there is no tag) equals the key under case folding; the field names of each
    struct here are pairwise different under case folding. A key that selects no
    field is skipped with its value, and a field that no key selects keeps the
    value it has;
  \<^item> every other combination is an \<open>UnmarshalTypeError\<close> that names the JSON value.
  The library goes on after a type error and returns the first one at the end; the
  model stops at the first one, which returns the same error.
\<close>

definition ParseUint_10 :: "string \<Rightarrow> nat option" where
  "ParseUint_10 lit =
     (if lit \<noteq> [] \<and> list_all isDigit lit
      then Some (foldl (\<lambda>n c. n * 10 + (of_char c - 0x30)) 0 lit)
      else None)"

fun unmarshal_uint32 :: "json \<Rightarrow> 32 word \<Rightarrow> error + 32 word" where
  "unmarshal_uint32 JNull cur = Inr cur"
| "unmarshal_uint32 (JNumber lit) cur =
     (case ParseUint_10 lit of
        None \<Rightarrow> Inl (UnmarshalTypeError (''number '' @ lit))
      | Some n \<Rightarrow>
          if n < 2 ^ 32 then Inr (of_nat n)
          else Inl (UnmarshalTypeError (''number '' @ lit)))"
| "unmarshal_uint32 (JBool b) cur = Inl (UnmarshalTypeError ''bool'')"
| "unmarshal_uint32 (JString s) cur = Inl (UnmarshalTypeError ''string'')"
| "unmarshal_uint32 (JArray es) cur = Inl (UnmarshalTypeError ''array'')"
| "unmarshal_uint32 (JObject kvs) cur = Inl (UnmarshalTypeError ''object'')"

fun unmarshal_string :: "json \<Rightarrow> string \<Rightarrow> error + string" where
  "unmarshal_string JNull cur = Inr cur"
| "unmarshal_string (JString s) cur = Inr s"
| "unmarshal_string (JNumber lit) cur = Inl (UnmarshalTypeError ''number'')"
| "unmarshal_string (JBool b) cur = Inl (UnmarshalTypeError ''bool'')"
| "unmarshal_string (JArray es) cur = Inl (UnmarshalTypeError ''array'')"
| "unmarshal_string (JObject kvs) cur = Inl (UnmarshalTypeError ''object'')"

definition unmarshal_ptr_uint32 :: "json \<Rightarrow> 32 word option \<Rightarrow> error + 32 word option" where
  "unmarshal_ptr_uint32 j cur =
     (if j = JNull then Inr None
      else map_sum id Some (unmarshal_uint32 j (case cur of None \<Rightarrow> 0 | Some v \<Rightarrow> v)))"

text \<open>
  Storing an object into a struct: the members in the order of the text, each into
  the field its key selects. Storing any other value into a struct: \<open>null\<close> is
  skipped, everything else is a type error.
\<close>

fun unmarshal_members ::
  "(string \<Rightarrow> json \<Rightarrow> 'a \<Rightarrow> error + 'a) \<Rightarrow> (string \<times> json) list \<Rightarrow> 'a \<Rightarrow> error + 'a" where
  "unmarshal_members field [] cur = Inr cur"
| "unmarshal_members field ((k, v) # kvs) cur =
     (case field k v cur of
        Inl e \<Rightarrow> Inl e
      | Inr cur' \<Rightarrow> unmarshal_members field kvs cur')"

fun unmarshal_struct ::
  "(string \<Rightarrow> json \<Rightarrow> 'a \<Rightarrow> error + 'a) \<Rightarrow> json \<Rightarrow> 'a \<Rightarrow> error + 'a" where
  "unmarshal_struct field JNull cur = Inr cur"
| "unmarshal_struct field (JObject kvs) cur = unmarshal_members field kvs cur"
| "unmarshal_struct field (JNumber lit) cur = Inl (UnmarshalTypeError ''number'')"
| "unmarshal_struct field (JString s) cur = Inl (UnmarshalTypeError ''string'')"
| "unmarshal_struct field (JBool b) cur = Inl (UnmarshalTypeError ''bool'')"
| "unmarshal_struct field (JArray es) cur = Inl (UnmarshalTypeError ''array'')"

definition VrrpInstanceStats_field ::
  "string \<Rightarrow> json \<Rightarrow> VrrpInstanceStats \<Rightarrow> error + VrrpInstanceStats" where
  "VrrpInstanceStats_field k v cur =
     (if EqualFold k ''AdverTx''
        then map_sum id (\<lambda>x. cur\<lparr>AdverTx := x\<rparr>) (unmarshal_ptr_uint32 v (AdverTx cur))
      else if EqualFold k ''AdverRx''
        then map_sum id (\<lambda>x. cur\<lparr>AdverRx := x\<rparr>) (unmarshal_ptr_uint32 v (AdverRx cur))
      else if EqualFold k ''GarpTx''
        then map_sum id (\<lambda>x. cur\<lparr>GarpTx := x\<rparr>) (unmarshal_ptr_uint32 v (GarpTx cur))
      else if EqualFold k ''NeighborAdverTx''
        then map_sum id (\<lambda>x. cur\<lparr>NeighborAdverTx := x\<rparr>)
               (unmarshal_ptr_uint32 v (NeighborAdverTx cur))
      else if EqualFold k ''Transitions''
        then map_sum id (\<lambda>x. cur\<lparr>Transitions := x\<rparr>) (unmarshal_ptr_uint32 v (Transitions cur))
      else Inr cur)"

definition VrrpInstanceInfo_field ::
  "string \<Rightarrow> json \<Rightarrow> VrrpInstanceInfo \<Rightarrow> error + VrrpInstanceInfo" where
  "VrrpInstanceInfo_field k v cur =
     (if EqualFold k ''interface''
        then map_sum id (\<lambda>x. cur\<lparr>Subinterface := x\<rparr>) (unmarshal_string v (Subinterface cur))
      else if EqualFold k ''Status''
        then map_sum id (\<lambda>x. cur\<lparr>Status := x\<rparr>) (unmarshal_string v (Status cur))
      else if EqualFold k ''stats''
        then map_sum id (\<lambda>x. cur\<lparr>Statistics := x\<rparr>)
               (unmarshal_struct VrrpInstanceStats_field v (Statistics cur))
      else Inr cur)"

definition VrrpVrInfo_field :: "string \<Rightarrow> json \<Rightarrow> VrrpVrInfo \<Rightarrow> error + VrrpVrInfo" where
  "VrrpVrInfo_field k v cur =
     (if EqualFold k ''Vrid''
        then map_sum id (\<lambda>x. cur\<lparr>Vrid := x\<rparr>) (unmarshal_uint32 v (Vrid cur))
      else if EqualFold k ''Interface''
        then map_sum id (\<lambda>x. cur\<lparr>Interface := x\<rparr>) (unmarshal_string v (Interface cur))
      else if EqualFold k ''v6''
        then map_sum id (\<lambda>x. cur\<lparr>V6Info := x\<rparr>)
               (unmarshal_struct VrrpInstanceInfo_field v (V6Info cur))
      else if EqualFold k ''v4''
        then map_sum id (\<lambda>x. cur\<lparr>V4Info := x\<rparr>)
               (unmarshal_struct VrrpInstanceInfo_field v (V4Info cur))
      else Inr cur)"

text \<open>The zero values of the structs, which a new element of the slice holds.\<close>

definition zero_VrrpInstanceStats :: VrrpInstanceStats where
  "zero_VrrpInstanceStats =
     \<lparr>AdverTx = None, AdverRx = None, GarpTx = None, NeighborAdverTx = None,
      Transitions = None\<rparr>"

definition zero_VrrpInstanceInfo :: VrrpInstanceInfo where
  "zero_VrrpInstanceInfo =
     \<lparr>Subinterface = [], Status = [], Statistics = zero_VrrpInstanceStats\<rparr>"

definition zero_VrrpVrInfo :: VrrpVrInfo where
  "zero_VrrpVrInfo =
     \<lparr>Vrid = 0, Interface = [], V6Info = zero_VrrpInstanceInfo,
      V4Info = zero_VrrpInstanceInfo\<rparr>"

fun unmarshal_elements :: "json list \<Rightarrow> error + VrrpVrInfo list" where
  "unmarshal_elements [] = Inr []"
| "unmarshal_elements (e # es) =
     (case unmarshal_struct VrrpVrInfo_field e zero_VrrpVrInfo of
        Inl err \<Rightarrow> Inl err
      | Inr x \<Rightarrow>
          (case unmarshal_elements es of
             Inl err \<Rightarrow> Inl err
           | Inr xs \<Rightarrow> Inr (x # xs)))"

text \<open>Storing into the nil slice \<open>jsonList\<close> of \<open>processVRRPInfo\<close>.\<close>

fun unmarshal_VrrpVrInfo_slice :: "json \<Rightarrow> error + VrrpVrInfo list" where
  "unmarshal_VrrpVrInfo_slice JNull = Inr []"
| "unmarshal_VrrpVrInfo_slice (JArray es) = unmarshal_elements es"
| "unmarshal_VrrpVrInfo_slice (JObject kvs) = Inl (UnmarshalTypeError ''object'')"
| "unmarshal_VrrpVrInfo_slice (JNumber lit) = Inl (UnmarshalTypeError ''number'')"
| "unmarshal_VrrpVrInfo_slice (JString s) = Inl (UnmarshalTypeError ''string'')"
| "unmarshal_VrrpVrInfo_slice (JBool b) = Inl (UnmarshalTypeError ''bool'')"

text \<open>\<open>json.Unmarshal(jsonVRRPInfo, &jsonList)\<close>.\<close>

definition json_Unmarshal :: "string \<Rightarrow> error + VrrpVrInfo list" where
  "json_Unmarshal b =
     (case json_parse b of
        None \<Rightarrow> Inl SyntaxError
      | Some j \<Rightarrow> unmarshal_VrrpVrInfo_slice j)"

subsection \<open>Descriptors and emission\<close>

text \<open>
  \<open>getVRRPDesc\<close>: the map from the collector's keys to its six descriptors. The
  descriptors are named here so that statements can refer to them; the state
  descriptor has the four base label names and \<open>state\<close>, the five counter
  descriptors the four base label names.
\<close>

definition vrrpLabelNames :: "string list" where
  "vrrpLabelNames = [''proto'', ''vrid'', ''interface'', ''subinterface'']"

definition vrrpStateDesc :: Desc where
  "vrrpStateDesc =
     colPromDesc vrrpSubsystem ''state'' ''Status of the VRRP state machine.''
       (vrrpLabelNames @ [''state''])"

definition adverTxDesc :: Desc where
  "adverTxDesc =
     colPromDesc vrrpSubsystem ''advertisements_sent_total'' ''Advertisements sent total.''
       vrrpLabelNames"

definition adverRxDesc :: Desc where
  "adverRxDesc =
     colPromDesc vrrpSubsystem ''advertisements_received_total''
       ''Advertisements received total.'' vrrpLabelNames"

definition garpTxDesc :: Desc where
  "garpTxDesc =
     colPromDesc vrrpSubsystem ''gratuitous_arp_sent_total'' ''Gratuitous ARP sent total.''
       vrrpLabelNames"

definition neighborAdverTxDesc :: Desc where
  "neighborAdverTxDesc =
     colPromDesc vrrpSubsystem ''neighbor_advertisements_sent_total''
       ''Neighbor Advertisements sent total.'' vrrpLabelNames"

definition transitionsDesc :: Desc where
  "transitionsDesc =
     colPromDesc vrrpSubsystem ''state_transitions_total''
       ''Number of transitions of the VRRP state machine in total.'' vrrpLabelNames"

definition getVRRPDesc :: "string \<rightharpoonup> Desc" where
  "getVRRPDesc =
     map_of
       [(''vrrpState'', vrrpStateDesc),
        (''adverTx'', adverTxDesc),
        (''adverRx'', adverRxDesc),
        (''garpTx'', garpTxDesc),
        (''neighborAdverTx'', neighborAdverTxDesc),
        (''transitions'', transitionsDesc)]"

text \<open>
  The loop of \<open>processInstance\<close> over \<open>vrrpStates\<close>: one gauge per state, with the
  state name appended to the base labels and the value 1 when the status equals the
  state name under case folding, 0 otherwise.
\<close>

fun processInstance_states ::
  "sink \<Rightarrow> string list \<Rightarrow> string \<Rightarrow> (string \<rightharpoonup> Desc) \<Rightarrow> string list \<Rightarrow> sink option" where
  "processInstance_states ch vrrpLabels status vrrpDesc [] = Some ch"
| "processInstance_states ch vrrpLabels status vrrpDesc (state # rest) =
     (let stateLabels = vrrpLabels @ [state];
          value = (if EqualFold status state then 1 else 0)
      in do {
        ch' \<leftarrow> newGauge ch (vrrpDesc ''vrrpState'') value stateLabels;
        processInstance_states ch' vrrpLabels status vrrpDesc rest
      })"

text \<open>
  One of the five \<open>if instance.Statistics.X != nil { newCounter(...) }\<close> blocks.
\<close>

definition processInstance_counter ::
  "sink \<Rightarrow> Desc option \<Rightarrow> 32 word option \<Rightarrow> string list \<Rightarrow> sink option" where
  "processInstance_counter ch descName field vrrpLabels =
     (case field of
        None \<Rightarrow> Some ch
      | Some v \<Rightarrow> newCounter ch descName (real (unat v)) vrrpLabels)"

definition processInstance ::
  "sink \<Rightarrow> string \<Rightarrow> 32 word \<Rightarrow> string \<Rightarrow> VrrpInstanceInfo \<Rightarrow> (string \<rightharpoonup> Desc) \<Rightarrow> sink option" where
  "processInstance ch proto vrid iface inst vrrpDesc =
     (let vrrpLabels = [proto, FormatUint_10 (unat vrid), iface, Subinterface inst] in
      do {
        ch1 \<leftarrow> processInstance_states ch vrrpLabels (Status inst) vrrpDesc vrrpStates;
        ch2 \<leftarrow> processInstance_counter ch1 (vrrpDesc ''adverTx'')
                 (AdverTx (Statistics inst)) vrrpLabels;
        ch3 \<leftarrow> processInstance_counter ch2 (vrrpDesc ''adverRx'')
                 (AdverRx (Statistics inst)) vrrpLabels;
        ch4 \<leftarrow> processInstance_counter ch3 (vrrpDesc ''garpTx'')
                 (GarpTx (Statistics inst)) vrrpLabels;
        ch5 \<leftarrow> processInstance_counter ch4 (vrrpDesc ''neighborAdverTx'')
                 (NeighborAdverTx (Statistics inst)) vrrpLabels;
        processInstance_counter ch5 (vrrpDesc ''transitions'')
          (Transitions (Statistics inst)) vrrpLabels
      })"

text \<open>
  The loop of \<open>processVRRPInfo\<close> over the decoded records: the v4 sub-record, then
  the v6 sub-record, of each record in turn.
\<close>

fun processVRRPInfo_records :: "sink \<Rightarrow> VrrpVrInfo list \<Rightarrow> (string \<rightharpoonup> Desc) \<Rightarrow> sink option" where
  "processVRRPInfo_records ch [] vrrpDesc = Some ch"
| "processVRRPInfo_records ch (vrInfo # rest) vrrpDesc =
     do {
       ch1 \<leftarrow> processInstance ch ''v4'' (Vrid vrInfo) (Interface vrInfo) (V4Info vrInfo) vrrpDesc;
       ch2 \<leftarrow> processInstance ch1 ''v6'' (Vrid vrInfo) (Interface vrInfo) (V6Info vrInfo) vrrpDesc;
       processVRRPInfo_records ch2 rest vrrpDesc
     }"

text \<open>
  \<open>processVRRPInfo\<close>: the error returned (\<open>None\<close> is \<open>nil\<close>) and the sink after
  the call; the outer \<open>None\<close> is a fatal outcome of an emission helper.
\<close>

definition processVRRPInfo ::
  "sink \<Rightarrow> string \<Rightarrow> (string \<rightharpoonup> Desc) \<Rightarrow> (sink \<times> error option) option" where
  "processVRRPInfo ch jsonVRRPInfo vrrpDesc =
     (case json_Unmarshal jsonVRRPInfo of
        Inl err \<Rightarrow> Some (ch, Some err)
      | Inr jsonList \<Rightarrow>
          map_option (\<lambda>ch'. (ch', None)) (processVRRPInfo_records ch jsonList vrrpDesc))"

section \<open>The BFD collector\<close>

text \<open>
  Modelled from the spec: \<open>processBFDPeers\<close> and its descriptors, whose source is
  not among the files given (only its test is). A peer session record has a local
  and a peer address, an uptime in seconds and a status. The spec describes the
  status once as an integer code and once as a text that denotes up or not; the
  model leaves its representation open (the type \<open>'s\<close>) and takes the test
  \<open>isUp\<close> for "the status denotes up" as a parameter. The spec does not give the
  keys of the encoded table either, so the decoding of the bytes into the records
  is the parameter \<open>decode\<close>.

  On a decode error the error is returned and nothing is emitted. Otherwise one
  peer-count gauge without labels is emitted, whose value is the number of records,
  and for each record an uptime counter and a state gauge (1 when the status
  denotes up, 0 otherwise), both labelled by the local and the peer address.
\<close>

record 's BfdPeer =
  bfdLocal :: string
  bfdPeer :: string
  bfdUptime :: nat
  bfdStatus :: 's

definition bfdSubsystem :: string where
  "bfdSubsystem = ''bfd''"

definition bfdPeerCountDesc :: Desc where
  "bfdPeerCountDesc = colPromDesc bfdSubsystem ''peer_count'' [] []"

definition bfdPeerUptimeDesc :: Desc where
  "bfdPeerUptimeDesc = colPromDesc bfdSubsystem ''peer_uptime'' [] [''local'', ''peer'']"

definition bfdPeerStateDesc :: Desc where
  "bfdPeerStateDesc = colPromDesc bfdSubsystem ''peer_state'' [] [''local'', ''peer'']"

fun processBFDPeers_records :: "('s \<Rightarrow> bool) \<Rightarrow> sink \<Rightarrow> 's BfdPeer list \<Rightarrow> sink option" where
  "processBFDPeers_records isUp ch [] = Some ch"
| "processBFDPeers_records isUp ch (p # rest) =
     (let labels = [bfdLocal p, bfdPeer p];
          bfdState = (if isUp (bfdStatus p) then 1 else 0)
      in do {
        ch1 \<leftarrow> newCounter ch (Some bfdPeerUptimeDesc) (real (bfdUptime p)) labels;
        ch2 \<leftarrow> newGauge ch1 (Some bfdPeerStateDesc) bfdState labels;
        processBFDPeers_records isUp ch2 rest
      })"

definition processBFDPeers ::
  "(string \<Rightarrow> error + 's BfdPeer list) \<Rightarrow> ('s \<Rightarrow> bool) \<Rightarrow> sink \<Rightarrow> string
   \<Rightarrow> (sink \<times> error option) option" where
  "processBFDPeers decode isUp ch rawBytes =
     (case decode rawBytes of
        Inl err \<Rightarrow> Some (ch, Some err)
      | Inr bfdPeers \<Rightarrow>
          do {
            ch1 \<leftarrow> newGauge ch (Some bfdPeerCountDesc) (real (length bfdPeers)) [];
            ch2 \<leftarrow> processBFDPeers_records isUp ch1 bfdPeers;
            Some (ch2, None)
          })"

section \<open>What the collectors emit, in closed form\<close>

text \<open>
  The observations that one call of \<open>processInstance\<close> sends, written as a list:
  the three state gauges in the order of \<open>vrrpStates\<close>, then one counter for each
  statistics field that is present, in the order of the source. These definitions
  are not part of the program; the lemmas below prove that the program sends
  exactly these.
\<close>

definition stateGauge :: "string list \<Rightarrow> string \<Rightarrow> string \<Rightarrow> Metric" where
  "stateGauge vrrpLabels status state =
     \<lparr>desc = vrrpStateDesc, valType = GaugeValue,
      val = (if EqualFold status state then 1 else 0),
      labelValues = vrrpLabels @ [state]\<rparr>"

definition counterObservations :: "Desc \<Rightarrow> string list \<Rightarrow> 32 word option \<Rightarrow> Metric list" where
  "counterObservations d vrrpLabels field =
     (case field of
        None \<Rightarrow> []
      | Some v \<Rightarrow>
          [\<lparr>desc = d, valType = CounterValue, val = real (unat v), labelValues = vrrpLabels\<rparr>])"

definition baseLabels :: "string \<Rightarrow> 32 word \<Rightarrow> string \<Rightarrow> VrrpInstanceInfo \<Rightarrow> string list" where
  "baseLabels proto vrid iface inst =
     [proto, FormatUint_10 (unat vrid), iface, Subinterface inst]"

definition stateObservations ::
  "string \<Rightarrow> 32 word \<Rightarrow> string \<Rightarrow> VrrpInstanceInfo \<Rightarrow> Metric list" where
  "stateObservations proto vrid iface inst =
     map (stateGauge (baseLabels proto vrid iface inst) (Status inst))
       [''Initialize'', ''Master'', ''Backup'']"

definition statObservations ::
  "string \<Rightarrow> 32 word \<Rightarrow> string \<Rightarrow> VrrpInstanceInfo \<Rightarrow> Metric list" where
  "statObservations proto vrid iface inst =
     counterObservations adverTxDesc (baseLabels proto vrid iface inst)
       (AdverTx (Statistics inst))
     @ counterObservations adverRxDesc (baseLabels proto vrid iface inst)
         (AdverRx (Statistics inst))
     @ counterObservations garpTxDesc (baseLabels proto vrid iface inst)
         (GarpTx (Statistics inst))
     @ counterObservations neighborAdverTxDesc (baseLabels proto vrid iface inst)
         (NeighborAdverTx (Statistics inst))
     @ counterObservations transitionsDesc (baseLabels proto vrid iface inst)
         (Transitions (Statistics inst))"

definition instanceObservations ::
  "string \<Rightarrow> 32 word \<Rightarrow> string \<Rightarrow> VrrpInstanceInfo \<Rightarrow> Metric list" where
  "instanceObservations proto vrid iface inst =
     stateObservations proto vrid iface inst @ statObservations proto vrid iface inst"

definition recordObservations :: "VrrpVrInfo \<Rightarrow> Metric list" where
  "recordObservations vrInfo =
     instanceObservations ''v4'' (Vrid vrInfo) (Interface vrInfo) (V4Info vrInfo)
     @ instanceObservations ''v6'' (Vrid vrInfo) (Interface vrInfo) (V6Info vrInfo)"

text \<open>What an observation shows to a reader: metric name, label values and value.\<close>

definition shown :: "Metric \<Rightarrow> string \<times> string list \<times> real" where
  "shown m = (fqName (desc m), labelValues m, val m)"

definition isStateGauge :: "Metric \<Rightarrow> bool" where
  "isStateGauge m = (desc m = vrrpStateDesc)"

subsection \<open>The examples of the spec\<close>

text \<open>
  The three peers of the end-to-end example of the spec and of the BFD test. The
  test fixture with the encoded table is not among the files given, so the example
  decoder yields the decoded table whatever the bytes; the status is the text
  \<open>up\<close> or \<open>down\<close>, compared under case folding.
\<close>

definition examplePeers :: "string BfdPeer list" where
  "examplePeers =
     [\<lparr>bfdLocal = ''10.10.141.81'', bfdPeer = ''10.10.141.61'', bfdUptime = 847716,
       bfdStatus = ''up''\<rparr>,
      \<lparr>bfdLocal = ''10.10.141.81'', bfdPeer = ''10.10.141.62'', bfdUptime = 847595,
       bfdStatus = ''up''\<rparr>,
      \<lparr>bfdLocal = ''10.10.141.81'', bfdPeer = ''10.10.141.63'', bfdUptime = 847888,
       bfdStatus = ''down''\<rparr>]"

definition exampleDecode :: "string \<Rightarrow> error + string BfdPeer list" where
  "exampleDecode rawBytes = Inr examplePeers"

definition exampleIsUp :: "string \<Rightarrow> bool" where
  "exampleIsUp status = EqualFold status ''up''"

text \<open>The values of the gauges among some observations, in the order sent.\<close>

definition gaugeValues :: "Metric list \<Rightarrow> real list" where
  "gaugeValues ms = map val (filter (\<lambda>m. valType m = GaugeValue) ms)"

text \<open>The decoded record of the end-to-end VRRP example of the spec.\<close>

definition exampleRecord :: VrrpVrInfo where
  "exampleRecord =
     \<lparr>Vrid = 1, Interface = ''eth0'',
      V6Info = \<lparr>Subinterface = [], Status = [],
        Statistics = \<lparr>AdverTx = None, AdverRx = None, GarpTx = None,
          NeighborAdverTx = None, Transitions = None\<rparr>\<rparr>,
      V4Info = \<lparr>Subinterface = [], Status = ''Master'',
        Statistics = \<lparr>AdverTx = Some 5, AdverRx = None, GarpTx = None,
          NeighborAdverTx = None, Transitions = None\<rparr>\<rparr>\<rparr>"

section \<open>The inputs that decode\<close>

text \<open>
  The shape of a JSON value that the stores accept, written down on its own: these
  definitions follow the amended claim C5 and not the decoder, with which a theorem
  below compares them. An integer field takes \<open>null\<close> or the decimal literal of an
  unsigned integer below \<open>2 ^ 32\<close>; a string field takes \<open>null\<close> or a string; a
  struct takes \<open>null\<close> or an object each of whose members is acceptable, where a
  member whose key selects no field is acceptable whatever its value; the input is
  \<open>null\<close> or an array of acceptable records. No member is required to be there.
\<close>

definition wellTyped_uint32 :: "json \<Rightarrow> bool" where
  "wellTyped_uint32 j =
     (case j of
        JNull \<Rightarrow> True
      | JNumber lit \<Rightarrow> (case ParseUint_10 lit of None \<Rightarrow> False | Some n \<Rightarrow> n < 2 ^ 32)
      | _ \<Rightarrow> False)"

definition wellTyped_string :: "json \<Rightarrow> bool" where
  "wellTyped_string j = (case j of JNull \<Rightarrow> True | JString s \<Rightarrow> True | _ \<Rightarrow> False)"

definition wellTyped_struct :: "(string \<Rightarrow> json \<Rightarrow> bool) \<Rightarrow> json \<Rightarrow> bool" where
  "wellTyped_struct member j =
     (case j of
        JNull \<Rightarrow> True
      | JObject kvs \<Rightarrow> list_all (\<lambda>(k, v). member k v) kvs
      | _ \<Rightarrow> False)"

definition stats_member :: "string \<Rightarrow> json \<Rightarrow> bool" where
  "stats_member k v =
     (if EqualFold k ''AdverTx'' \<or> EqualFold k ''AdverRx'' \<or> EqualFold k ''GarpTx''
         \<or> EqualFold k ''NeighborAdverTx'' \<or> EqualFold k ''Transitions''
      then wellTyped_uint32 v
      else True)"

definition info_member :: "string \<Rightarrow> json \<Rightarrow> bool" where
  "info_member k v =
     (if EqualFold k ''interface'' \<or> EqualFold k ''Status'' then wellTyped_string v
      else if EqualFold k ''stats'' then wellTyped_struct stats_member v
      else True)"

definition vr_member :: "string \<Rightarrow> json \<Rightarrow> bool" where
  "vr_member k v =
     (if EqualFold k ''Vrid'' then wellTyped_uint32 v
      else if EqualFold k ''Interface'' then wellTyped_string v
      else if EqualFold k ''v6'' \<or> EqualFold k ''v4'' then wellTyped_struct info_member v
      else True)"

definition wellTyped_input :: "json \<Rightarrow> bool" where
  "wellTyped_input j =
     (case j of
        JNull \<Rightarrow> True
      | JArray es \<Rightarrow> list_all (wellTyped_struct vr_member) es
      | _ \<Rightarrow> False)"

section \<open>Evaluation on concrete inputs\<close>

lemmas fold_eval =
  RuneSelf_def RuneError_def asciiEqualFold_def DecodeRuneInString_def utf8_first_def
  acceptRanges_def runeEqualFold_def foldWalk.simps SimpleFold_def

lemmas scan_eval =
  json_parse_def isSpace_def isDigit_def isExp_def endNumber_def stepN0_def stepNESign_def
  beginValue_def beginString_def maxNestingDepth_def simple_escape_def hexval_def getu4_def
  IsSurrogate_def utf16_DecodeRune_def EncodeRune_def

lemmas store_eval =
  json_Unmarshal_def ParseUint_10_def unmarshal_ptr_uint32_def VrrpInstanceStats_field_def
  VrrpInstanceInfo_field_def VrrpVrInfo_field_def zero_VrrpInstanceStats_def
  zero_VrrpInstanceInfo_def zero_VrrpVrInfo_def

section \<open>The closed form of the emission\<close>

lemma getVRRPDesc_lookup:
  "getVRRPDesc ''vrrpState'' = Some vrrpStateDesc"
  "getVRRPDesc ''adverTx'' = Some adverTxDesc"
  "getVRRPDesc ''adverRx'' = Some adverRxDesc"
  "getVRRPDesc ''garpTx'' = Some garpTxDesc"
  "getVRRPDesc ''neighborAdverTx'' = Some neighborAdverTxDesc"
  "getVRRPDesc ''transitions'' = Some transitionsDesc"
  by (simp_all add: getVRRPDesc_def)

lemma variableLabels_descs:
  "variableLabels vrrpStateDesc = [''proto'', ''vrid'', ''interface'', ''subinterface'', ''state'']"
  "variableLabels adverTxDesc = [''proto'', ''vrid'', ''interface'', ''subinterface'']"
  "variableLabels adverRxDesc = [''proto'', ''vrid'', ''interface'', ''subinterface'']"
  "variableLabels garpTxDesc = [''proto'', ''vrid'', ''interface'', ''subinterface'']"
  "variableLabels neighborAdverTxDesc = [''proto'', ''vrid'', ''interface'', ''subinterface'']"
  "variableLabels transitionsDesc = [''proto'', ''vrid'', ''interface'', ''subinterface'']"
  by (simp_all add: vrrpStateDesc_def adverTxDesc_def adverRxDesc_def garpTxDesc_def
      neighborAdverTxDesc_def transitionsDesc_def colPromDesc_def vrrpLabelNames_def)

lemma processInstance_states_closed:
  "length vrrpLabels = 4 \<Longrightarrow>
   processInstance_states ch vrrpLabels status getVRRPDesc states
     = Some (ch @ map (stateGauge vrrpLabels status) states)"
proof (induction states arbitrary: ch)
  case Nil
  show ?case by simp
next
  case (Cons state rest)
  have "newGauge ch (getVRRPDesc ''vrrpState'') (if EqualFold status state then 1 else 0)
          (vrrpLabels @ [state])
        = Some (ch @ [stateGauge vrrpLabels status state])"
    using Cons.prems
    by (simp add: newGauge_def newMetric_def getVRRPDesc_lookup variableLabels_descs
        stateGauge_def)
  then show ?case
    using Cons.IH [OF Cons.prems] by (simp add: Let_def)
qed

lemma processInstance_counter_closed:
  "length vrrpLabels = length (variableLabels d) \<Longrightarrow>
   processInstance_counter ch (Some d) field vrrpLabels
     = Some (ch @ counterObservations d vrrpLabels field)"
  by (cases field)
     (simp_all add: processInstance_counter_def counterObservations_def newCounter_def
       newMetric_def)

lemma vrrpStates_names: "vrrpStates = [''Initialize'', ''Master'', ''Backup'']"
  by (simp add: vrrpStates_def vrrpStatusInitialize_def vrrpStatusMaster_def
      vrrpStatusBackup_def)

lemma processInstance_closed:
  "processInstance ch proto vrid iface inst getVRRPDesc
     = Some (ch @ instanceObservations proto vrid iface inst)"
proof -
  let ?ls = "baseLabels proto vrid iface inst"
  have len: "length ?ls = 4" by (simp add: baseLabels_def)
  have s: "\<And>ch. processInstance_states ch ?ls (Status inst) getVRRPDesc vrrpStates
      = Some (ch @ stateObservations proto vrid iface inst)"
    by (simp only: processInstance_states_closed [OF len] stateObservations_def
        vrrpStates_names)
  have c: "\<And>ch d field. length (variableLabels d) = 4 \<Longrightarrow>
      processInstance_counter ch (Some d) field ?ls
        = Some (ch @ counterObservations d ?ls field)"
    using len by (simp add: processInstance_counter_closed)
  show ?thesis
    unfolding processInstance_def Let_def baseLabels_def [symmetric]
    by (simp add: s getVRRPDesc_lookup c variableLabels_descs instanceObservations_def
        statObservations_def)
qed

lemma processVRRPInfo_records_closed:
  "processVRRPInfo_records ch jsonList getVRRPDesc
     = Some (ch @ concat (map recordObservations jsonList))"
  by (induction jsonList arbitrary: ch)
     (simp_all add: processInstance_closed recordObservations_def)

lemma processVRRPInfo_closed:
  "json_Unmarshal b = Inr jsonList \<Longrightarrow>
   processVRRPInfo ch b getVRRPDesc
     = Some (ch @ concat (map recordObservations jsonList), None)"
  by (simp add: processVRRPInfo_def processVRRPInfo_records_closed)

section \<open>The state names under case folding\<close>

lemma runeEqualFold_letter:
  assumes "65 \<le> U" "U \<le> 90" "U \<noteq> 75" "U \<noteq> 83"
  shows "runeEqualFold r U = (r = U \<or> r = U + 32)"
proof (cases "r = U")
  case True
  then show ?thesis by (simp add: runeEqualFold_def)
next
  case neq: False
  show ?thesis
  proof (cases "r < 128")
    case True
    then show ?thesis
      using assms neq by (auto simp: runeEqualFold_def RuneSelf_def Let_def min_def max_def)
  next
    case False
    have f1: "SimpleFold U = U + 32"
      using assms by (simp add: SimpleFold_def)
    have f2: "SimpleFold (U + 32) = U"
      using assms by (simp add: SimpleFold_def)
    have "foldWalk U r (U + 32) = foldWalk U r U"
      using False assms by (subst foldWalk.simps) (simp add: f2)
    also have "\<dots> = Some U"
      by (subst foldWalk.simps) simp
    finally have w: "foldWalk U r (SimpleFold U) = Some U"
      by (simp add: f1)
    show ?thesis
      using False assms neq w
      by (simp add: runeEqualFold_def RuneSelf_def Let_def min_def max_def)
  qed
qed

lemma asciiEqualFold_rune:
  "a < 128 \<Longrightarrow> b < 128 \<Longrightarrow> asciiEqualFold a b = runeEqualFold a b"
  by (simp add: asciiEqualFold_def runeEqualFold_def RuneSelf_def Let_def)

lemma EqualFold_first:
  assumes "EqualFold s (d # ds)" "(of_char d :: nat) < 128"
  shows "s \<noteq> [] \<and>
           runeEqualFold (if (of_char (hd s) :: nat) < 128 then of_char (hd s)
                          else fst (DecodeRuneInString s)) (of_char d)"
proof (cases s)
  case Nil
  with assms show ?thesis by simp
next
  case (Cons c cs)
  show ?thesis
  proof (cases "(of_char c :: nat) < 128")
    case True
    with assms Cons show ?thesis
      by (simp add: RuneSelf_def asciiEqualFold_rune split: if_splits)
  next
    case False
    with assms Cons show ?thesis
      by (simp add: RuneSelf_def split: if_splits prod.splits)
  qed
qed

lemma runeEqualFold_I: "runeEqualFold r 73 = (r = 73 \<or> r = 105)"
  using runeEqualFold_letter [of 73 r] by simp

lemma runeEqualFold_M: "runeEqualFold r 77 = (r = 77 \<or> r = 109)"
  using runeEqualFold_letter [of 77 r] by simp

lemma runeEqualFold_B: "runeEqualFold r 66 = (r = 66 \<or> r = 98)"
  using runeEqualFold_letter [of 66 r] by simp

lemma states_exclusive:
  "\<not> (EqualFold s ''Initialize'' \<and> EqualFold s ''Master'')"
  "\<not> (EqualFold s ''Initialize'' \<and> EqualFold s ''Backup'')"
  "\<not> (EqualFold s ''Master'' \<and> EqualFold s ''Backup'')"
proof -
  define r where "r = (if (of_char (hd s) :: nat) < 128 then of_char (hd s)
                       else fst (DecodeRuneInString s))"
  have i: "EqualFold s ''Initialize'' \<Longrightarrow> r = 73 \<or> r = 105"
    using EqualFold_first [of s "CHR ''I''" "''nitialize''"]
    by (simp add: r_def runeEqualFold_I)
  have m: "EqualFold s ''Master'' \<Longrightarrow> r = 77 \<or> r = 109"
    using EqualFold_first [of s "CHR ''M''" "''aster''"]
    by (simp add: r_def runeEqualFold_M)
  have b: "EqualFold s ''Backup'' \<Longrightarrow> r = 66 \<or> r = 98"
    using EqualFold_first [of s "CHR ''B''" "''ackup''"]
    by (simp add: r_def runeEqualFold_B)
  show "\<not> (EqualFold s ''Initialize'' \<and> EqualFold s ''Master'')"
    using i m by auto
  show "\<not> (EqualFold s ''Initialize'' \<and> EqualFold s ''Backup'')"
    using i b by auto
  show "\<not> (EqualFold s ''Master'' \<and> EqualFold s ''Backup'')"
    using m b by auto
qed

section \<open>Selecting observations by descriptor\<close>

lemma fqName_descs:
  "fqName vrrpStateDesc = ''frr_vrrp_state''"
  "fqName adverTxDesc = ''frr_vrrp_advertisements_sent_total''"
  "fqName adverRxDesc = ''frr_vrrp_advertisements_received_total''"
  "fqName garpTxDesc = ''frr_vrrp_gratuitous_arp_sent_total''"
  "fqName neighborAdverTxDesc = ''frr_vrrp_neighbor_advertisements_sent_total''"
  "fqName transitionsDesc = ''frr_vrrp_state_transitions_total''"
  by (simp_all add: vrrpStateDesc_def adverTxDesc_def adverRxDesc_def garpTxDesc_def
      neighborAdverTxDesc_def transitionsDesc_def colPromDesc_def namespace_def
      vrrpSubsystem_def)

lemma fqName_neq: "fqName d \<noteq> fqName d' \<Longrightarrow> d \<noteq> d'"
  by auto

lemma counter_desc_not_state:
  "adverTxDesc \<noteq> vrrpStateDesc" "adverRxDesc \<noteq> vrrpStateDesc"
  "garpTxDesc \<noteq> vrrpStateDesc" "neighborAdverTxDesc \<noteq> vrrpStateDesc"
  "transitionsDesc \<noteq> vrrpStateDesc"
  by (rule fqName_neq, simp add: fqName_descs)+

lemma counter_descs_neq:
  "adverTxDesc \<noteq> adverRxDesc" "adverTxDesc \<noteq> garpTxDesc"
  "adverTxDesc \<noteq> neighborAdverTxDesc" "adverTxDesc \<noteq> transitionsDesc"
  "adverRxDesc \<noteq> adverTxDesc" "adverRxDesc \<noteq> garpTxDesc"
  "adverRxDesc \<noteq> neighborAdverTxDesc" "adverRxDesc \<noteq> transitionsDesc"
  "garpTxDesc \<noteq> adverTxDesc" "garpTxDesc \<noteq> adverRxDesc"
  "garpTxDesc \<noteq> neighborAdverTxDesc" "garpTxDesc \<noteq> transitionsDesc"
  "neighborAdverTxDesc \<noteq> adverTxDesc" "neighborAdverTxDesc \<noteq> adverRxDesc"
  "neighborAdverTxDesc \<noteq> garpTxDesc" "neighborAdverTxDesc \<noteq> transitionsDesc"
  "transitionsDesc \<noteq> adverTxDesc" "transitionsDesc \<noteq> adverRxDesc"
  "transitionsDesc \<noteq> garpTxDesc" "transitionsDesc \<noteq> neighborAdverTxDesc"
  by (rule fqName_neq, simp add: fqName_descs)+

lemma filter_desc_counterObservations:
  "filter (\<lambda>m. desc m = d') (counterObservations d ls field)
     = (if d = d' then counterObservations d ls field else [])"
  by (cases field) (simp_all add: counterObservations_def)

lemma filter_desc_stateObservations:
  "filter (\<lambda>m. desc m = d') (stateObservations proto vrid iface inst)
     = (if d' = vrrpStateDesc then stateObservations proto vrid iface inst else [])"
  by (auto simp: stateObservations_def stateGauge_def)

lemma filter_isStateGauge_instance:
  "filter isStateGauge (instanceObservations proto vrid iface inst)
     = stateObservations proto vrid iface inst"
  unfolding isStateGauge_def instanceObservations_def statObservations_def
  by (simp add: filter_desc_counterObservations filter_desc_stateObservations
      counter_desc_not_state)

lemma filter_counters_instance:
  "filter (\<lambda>m. valType m = CounterValue) (instanceObservations proto vrid iface inst)
     = statObservations proto vrid iface inst"
  by (simp add: instanceObservations_def statObservations_def
      stateObservations_def stateGauge_def counterObservations_def split: option.splits)

lemma val_stateObservations:
  "map val (stateObservations proto vrid iface inst)
     = [if EqualFold (Status inst) ''Initialize'' then 1 else 0,
        if EqualFold (Status inst) ''Master'' then 1 else 0,
        if EqualFold (Status inst) ''Backup'' then 1 else 0]"
  by (simp add: stateObservations_def stateGauge_def)



lemma one_hot_sum:
  fixes a b c :: bool
  assumes "\<not> (a \<and> b)" "\<not> (a \<and> c)" "\<not> (b \<and> c)"
  shows "sum_list [if a then 1 else 0, if b then 1 else 0, if c then 1 else (0::real)]
           = (if a \<or> b \<or> c then 1 else 0)"
    and "length (filter (\<lambda>v. v = 1) [if a then 1 else 0, if b then 1 else 0,
           if c then 1 else (0::real)]) \<le> 1"
  using assms by (cases a; cases b; cases c; simp)+

lemma state_values:
  "map val (filter isStateGauge (instanceObservations proto vrid iface inst))
     = [if EqualFold (Status inst) ''Initialize'' then 1 else 0,
        if EqualFold (Status inst) ''Master'' then 1 else 0,
        if EqualFold (Status inst) ''Backup'' then 1 else 0]"
  by (simp only: filter_isStateGauge_instance val_stateObservations)


lemma filter_counter_desc:
  assumes "d \<noteq> vrrpStateDesc"
  shows "filter (\<lambda>m. desc m = d) (instanceObservations proto vrid iface inst)
      = filter (\<lambda>m. desc m = d) (statObservations proto vrid iface inst)"
  using assms by (simp add: instanceObservations_def filter_desc_stateObservations)

lemma counterObservations_unfold:
  "counterObservations d (baseLabels proto vrid iface inst) field
      = (case field of None \<Rightarrow> [] | Some v \<Rightarrow>
           [\<lparr>desc = d, valType = CounterValue, val = real (unat v),
             labelValues = [proto, FormatUint_10 (unat vrid), iface, Subinterface inst]\<rparr>])"
  by (simp add: counterObservations_def baseLabels_def)

lemma filter_stat_descs:
  "filter (\<lambda>m. desc m = adverTxDesc) (instanceObservations proto vrid iface inst)
      = counterObservations adverTxDesc (baseLabels proto vrid iface inst)
          (AdverTx (Statistics inst))"
  "filter (\<lambda>m. desc m = adverRxDesc) (instanceObservations proto vrid iface inst)
      = counterObservations adverRxDesc (baseLabels proto vrid iface inst)
          (AdverRx (Statistics inst))"
  "filter (\<lambda>m. desc m = garpTxDesc) (instanceObservations proto vrid iface inst)
      = counterObservations garpTxDesc (baseLabels proto vrid iface inst)
          (GarpTx (Statistics inst))"
  "filter (\<lambda>m. desc m = neighborAdverTxDesc) (instanceObservations proto vrid iface inst)
      = counterObservations neighborAdverTxDesc (baseLabels proto vrid iface inst)
          (NeighborAdverTx (Statistics inst))"
  "filter (\<lambda>m. desc m = transitionsDesc) (instanceObservations proto vrid iface inst)
      = counterObservations transitionsDesc (baseLabels proto vrid iface inst)
          (Transitions (Statistics inst))"
  by (simp_all add: filter_counter_desc counter_desc_not_state statObservations_def
      filter_desc_counterObservations counter_descs_neq)


section \<open>The end-to-end example of the spec\<close>

text \<open>
  One virtual router with vrid 1 on eth0, whose v4 sub-record is Master with the
  single counter AdverTx = 5 and whose v6 sub-record is missing.
\<close>

lemmas emit_eval =
  recordObservations_def instanceObservations_def stateObservations_def statObservations_def
  stateGauge_def counterObservations_def baseLabels_def shown_def fqName_descs
  FormatUint_10.simps digits_def

lemma example_decoded:
  \<open>json_Unmarshal ''[{"vrid":1,"interface":"eth0","v4":{"status":"Master","stats":{"adverTx":5}}}]''
     = Inr [\<lparr>Vrid = 1, Interface = ''eth0'',
             V6Info = \<lparr>Subinterface = [], Status = [],
               Statistics = \<lparr>AdverTx = None, AdverRx = None, GarpTx = None,
                 NeighborAdverTx = None, Transitions = None\<rparr>\<rparr>,
             V4Info = \<lparr>Subinterface = [], Status = ''Master'',
               Statistics = \<lparr>AdverTx = Some 5, AdverRx = None, GarpTx = None,
                 NeighborAdverTx = None, Transitions = None\<rparr>\<rparr>\<rparr>]\<close>
  by (simp add: fold_eval scan_eval store_eval)


section \<open>Decode failure\<close>

text \<open>
  C4: when decoding the input fails, \<open>processVRRPInfo\<close> returns the decode error
  and the sink is what it was before the call: nothing is emitted, whatever the
  sink held and whatever descriptors are passed.
\<close>

theorem C4_decode_failure_emits_nothing:
  "json_Unmarshal b = Inl err \<Longrightarrow> processVRRPInfo ch b vrrpDesc = Some (ch, Some err)"
  by (simp add: processVRRPInfo_def)

text \<open>A truncated input: the array and the object are never closed.\<close>

theorem C4_decode_failure_witness:
  \<open>json_Unmarshal ''[{"vrid":1,"interface":"eth0","v4":{"status":"Mas'' = Inl SyntaxError
   \<and> processVRRPInfo [] ''[{"vrid":1,"interface":"eth0","v4":{"status":"Mas'' getVRRPDesc
       = Some ([], Some SyntaxError)\<close>
proof -
  have h: \<open>json_Unmarshal ''[{"vrid":1,"interface":"eth0","v4":{"status":"Mas''
           = Inl SyntaxError\<close>
    by (simp add: fold_eval scan_eval store_eval)
  show ?thesis
    using h C4_decode_failure_emits_nothing [OF h, of "[]" getVRRPDesc] by simp
qed

text \<open>
  C10: on the byte buffers \<open>null\<close> and \<open>[]\<close> the call succeeds: the error returned
  is nil and the sink is unchanged.
\<close>

theorem C10_null_and_empty_array_succeed:
  "processVRRPInfo ch ''null'' vrrpDesc = Some (ch, None)
   \<and> processVRRPInfo ch ''[]'' vrrpDesc = Some (ch, None)"
  by (simp add: processVRRPInfo_def fold_eval scan_eval store_eval)

section \<open>The state block\<close>

text \<open>
  C9: a status equals at most one of the three state names under case folding, so of
  the three state observations that \<open>processInstance\<close> sends for a sub-record at most
  one has the value 1, and their sum is 0 or 1.
\<close>

theorem C9_at_most_one_state_is_one:
  "length (filter (EqualFold status) vrrpStates) \<le> 1
   \<and> (\<exists>ms. processInstance ch proto vrid iface inst getVRRPDesc = Some (ch @ ms)
         \<and> length (filter (\<lambda>v. v = 1) (map val (filter isStateGauge ms))) \<le> 1
         \<and> (sum_list (map val (filter isStateGauge ms)) = 0
            \<or> sum_list (map val (filter isStateGauge ms)) = 1))"
proof (intro conjI exI)
  show "length (filter (EqualFold status) vrrpStates) \<le> 1"
    using states_exclusive [of status] by (auto simp: vrrpStates_names)
  show "processInstance ch proto vrid iface inst getVRRPDesc
          = Some (ch @ instanceObservations proto vrid iface inst)"
    by (rule processInstance_closed)
  show "length (filter (\<lambda>v. v = 1)
          (map val (filter isStateGauge (instanceObservations proto vrid iface inst)))) \<le> 1"
    unfolding state_values
    by (rule one_hot_sum(2)) (rule states_exclusive)+
  show "sum_list (map val (filter isStateGauge (instanceObservations proto vrid iface inst)))
          = 0
      \<or> sum_list (map val (filter isStateGauge (instanceObservations proto vrid iface inst)))
          = 1"
    unfolding state_values
    by (subst (1 2) one_hot_sum(1)) (simp_all add: states_exclusive)
qed

text \<open>
  C1 as stated fails: in the example the v6 sub-record has the empty status, which
  equals none of the state names, and its three state observations are all 0.
\<close>

theorem C1_one_hot_counterexample:
  \<open>map_option (map shown \<circ> fst)
     (processVRRPInfo []
        ''[{"vrid":1,"interface":"eth0","v4":{"status":"Master","stats":{"adverTx":5}}}]''
        getVRRPDesc)
   = Some [(''frr_vrrp_state'', [''v4'', ''1'', ''eth0'', '''', ''Initialize''], 0),
           (''frr_vrrp_state'', [''v4'', ''1'', ''eth0'', '''', ''Master''], 1),
           (''frr_vrrp_state'', [''v4'', ''1'', ''eth0'', '''', ''Backup''], 0),
           (''frr_vrrp_advertisements_sent_total'', [''v4'', ''1'', ''eth0'', ''''], 5),
           (''frr_vrrp_state'', [''v6'', ''1'', ''eth0'', '''', ''Initialize''], 0),
           (''frr_vrrp_state'', [''v6'', ''1'', ''eth0'', '''', ''Master''], 0),
           (''frr_vrrp_state'', [''v6'', ''1'', ''eth0'', '''', ''Backup''], 0)]\<close>
  by (simp add: processVRRPInfo_closed [OF example_decoded] emit_eval fold_eval)

text \<open>
  C1, as amended: \<open>processInstance\<close> sends three state observations, in the order
  Initialize, Master, Backup, each with the value 1 when the status equals that state
  name under case folding and 0 otherwise; their sum is 1 when the status equals one
  of the three names and 0 when it equals none of them.
\<close>

theorem C1_state_block_sum:
  "\<exists>ms. processInstance ch proto vrid iface inst getVRRPDesc = Some (ch @ ms)
     \<and> map val (filter isStateGauge ms)
         = [if EqualFold (Status inst) ''Initialize'' then 1 else 0,
            if EqualFold (Status inst) ''Master'' then 1 else 0,
            if EqualFold (Status inst) ''Backup'' then 1 else 0]
     \<and> sum_list (map val (filter isStateGauge ms))
         = (if list_ex (EqualFold (Status inst)) vrrpStates then 1 else 0)"
proof (intro conjI exI)
  show "processInstance ch proto vrid iface inst getVRRPDesc
          = Some (ch @ instanceObservations proto vrid iface inst)"
    by (rule processInstance_closed)
  show "map val (filter isStateGauge (instanceObservations proto vrid iface inst))
         = [if EqualFold (Status inst) ''Initialize'' then 1 else 0,
            if EqualFold (Status inst) ''Master'' then 1 else 0,
            if EqualFold (Status inst) ''Backup'' then 1 else 0]"
    by (rule state_values)
  show "sum_list (map val (filter isStateGauge (instanceObservations proto vrid iface inst)))
         = (if list_ex (EqualFold (Status inst)) vrrpStates then 1 else 0)"
    unfolding state_values
    by (subst one_hot_sum(1)) (simp_all add: states_exclusive vrrpStates_names)
qed

section \<open>The optional counters\<close>

text \<open>
  C3: for each of the five statistics fields, the observations with the descriptor of
  that field that \<open>processInstance\<close> sends are none when the field is nil, and exactly
  one counter with the base labels and the value of the field when it is present.
  The fields are decided independently of each other, and these are all the counter
  observations of the call.
\<close>

theorem C3_counter_iff_present:
  "\<exists>ms. processInstance ch proto vrid iface inst getVRRPDesc = Some (ch @ ms)
     \<and> filter (\<lambda>m. desc m = adverTxDesc) ms
         = (case AdverTx (Statistics inst) of
              None \<Rightarrow> []
            | Some v \<Rightarrow>
                [\<lparr>desc = adverTxDesc, valType = CounterValue, val = real (unat v),
                  labelValues = [proto, FormatUint_10 (unat vrid), iface, Subinterface inst]\<rparr>])
     \<and> filter (\<lambda>m. desc m = adverRxDesc) ms
         = (case AdverRx (Statistics inst) of
              None \<Rightarrow> []
            | Some v \<Rightarrow>
                [\<lparr>desc = adverRxDesc, valType = CounterValue, val = real (unat v),
                  labelValues = [proto, FormatUint_10 (unat vrid), iface, Subinterface inst]\<rparr>])
     \<and> filter (\<lambda>m. desc m = garpTxDesc) ms
         = (case GarpTx (Statistics inst) of
              None \<Rightarrow> []
            | Some v \<Rightarrow>
                [\<lparr>desc = garpTxDesc, valType = CounterValue, val = real (unat v),
                  labelValues = [proto, FormatUint_10 (unat vrid), iface, Subinterface inst]\<rparr>])
     \<and> filter (\<lambda>m. desc m = neighborAdverTxDesc) ms
         = (case NeighborAdverTx (Statistics inst) of
              None \<Rightarrow> []
            | Some v \<Rightarrow>
                [\<lparr>desc = neighborAdverTxDesc, valType = CounterValue, val = real (unat v),
                  labelValues = [proto, FormatUint_10 (unat vrid), iface, Subinterface inst]\<rparr>])
     \<and> filter (\<lambda>m. desc m = transitionsDesc) ms
         = (case Transitions (Statistics inst) of
              None \<Rightarrow> []
            | Some v \<Rightarrow>
                [\<lparr>desc = transitionsDesc, valType = CounterValue, val = real (unat v),
                  labelValues = [proto, FormatUint_10 (unat vrid), iface, Subinterface inst]\<rparr>])
     \<and> filter (\<lambda>m. valType m = CounterValue) ms
         = filter (\<lambda>m. desc m = adverTxDesc) ms @ filter (\<lambda>m. desc m = adverRxDesc) ms
           @ filter (\<lambda>m. desc m = garpTxDesc) ms
           @ filter (\<lambda>m. desc m = neighborAdverTxDesc) ms
           @ filter (\<lambda>m. desc m = transitionsDesc) ms"
proof (intro exI conjI)
  let ?ms = "instanceObservations proto vrid iface inst"
  show "processInstance ch proto vrid iface inst getVRRPDesc = Some (ch @ ?ms)"
    by (rule processInstance_closed)
  show "filter (\<lambda>m. desc m = adverTxDesc) ?ms
         = (case AdverTx (Statistics inst) of
              None \<Rightarrow> []
            | Some v \<Rightarrow>
                [\<lparr>desc = adverTxDesc, valType = CounterValue, val = real (unat v),
                  labelValues = [proto, FormatUint_10 (unat vrid), iface, Subinterface inst]\<rparr>])"
    by (simp only: filter_stat_descs counterObservations_unfold)
  show "filter (\<lambda>m. desc m = adverRxDesc) ?ms
         = (case AdverRx (Statistics inst) of
              None \<Rightarrow> []
            | Some v \<Rightarrow>
                [\<lparr>desc = adverRxDesc, valType = CounterValue, val = real (unat v),
                  labelValues = [proto, FormatUint_10 (unat vrid), iface, Subinterface inst]\<rparr>])"
    by (simp only: filter_stat_descs counterObservations_unfold)
  show "filter (\<lambda>m. desc m = garpTxDesc) ?ms
         = (case GarpTx (Statistics inst) of
              None \<Rightarrow> []
            | Some v \<Rightarrow>
                [\<lparr>desc = garpTxDesc, valType = CounterValue, val = real (unat v),
                  labelValues = [proto, FormatUint_10 (unat vrid), iface, Subinterface inst]\<rparr>])"
    by (simp only: filter_stat_descs counterObservations_unfold)
  show "filter (\<lambda>m. desc m = neighborAdverTxDesc) ?ms
         = (case NeighborAdverTx (Statistics inst) of
              None \<Rightarrow> []
            | Some v \<Rightarrow>
                [\<lparr>desc = neighborAdverTxDesc, valType = CounterValue, val = real (unat v),
                  labelValues = [proto, FormatUint_10 (unat vrid), iface, Subinterface inst]\<rparr>])"
    by (simp only: filter_stat_descs counterObservations_unfold)
  show "filter (\<lambda>m. desc m = transitionsDesc) ?ms
         = (case Transitions (Statistics inst) of
              None \<Rightarrow> []
            | Some v \<Rightarrow>
                [\<lparr>desc = transitionsDesc, valType = CounterValue, val = real (unat v),
                  labelValues = [proto, FormatUint_10 (unat vrid), iface, Subinterface inst]\<rparr>])"
    by (simp only: filter_stat_descs counterObservations_unfold)
  show "filter (\<lambda>m. valType m = CounterValue) ?ms
         = filter (\<lambda>m. desc m = adverTxDesc) ?ms @ filter (\<lambda>m. desc m = adverRxDesc) ?ms
           @ filter (\<lambda>m. desc m = garpTxDesc) ?ms
           @ filter (\<lambda>m. desc m = neighborAdverTxDesc) ?ms
           @ filter (\<lambda>m. desc m = transitionsDesc) ?ms"
    by (simp only: filter_stat_descs filter_counters_instance statObservations_def)
qed

section \<open>Both families of every record\<close>

lemma filter_isStateGauge_record:
  "filter isStateGauge (recordObservations vrInfo)
     = stateObservations ''v4'' (Vrid vrInfo) (Interface vrInfo) (V4Info vrInfo)
       @ stateObservations ''v6'' (Vrid vrInfo) (Interface vrInfo) (V6Info vrInfo)"
  by (simp add: recordObservations_def filter_isStateGauge_instance)

lemma stateObservations_unfold:
  "stateObservations proto vrid iface inst
     = map (\<lambda>state. \<lparr>desc = vrrpStateDesc, valType = GaugeValue,
              val = (if EqualFold (Status inst) state then 1 else 0),
              labelValues = [proto, FormatUint_10 (unat vrid), iface, Subinterface inst, state]\<rparr>)
         [''Initialize'', ''Master'', ''Backup'']"
  by (simp add: stateObservations_def stateGauge_def baseLabels_def)

text \<open>
  C2: for a decoded input, \<open>processVRRPInfo\<close> returns no error, and the state
  observations it sends are, for every record in turn, first for the v4 and then for
  the v6 sub-record, one gauge for each of Initialize, Master and Backup in this
  order, labelled with the family, the decimal vrid, the interface, the subinterface
  and the state name, with the value 1 when the status equals the state name under
  case folding and 0 otherwise. That makes six state observations for every record,
  whatever the sub-records hold.
\<close>

theorem C2_state_block_for_both_families:
  "json_Unmarshal b = Inr jsonList \<Longrightarrow>
   \<exists>ms. processVRRPInfo ch b getVRRPDesc = Some (ch @ ms, None)
     \<and> filter isStateGauge ms
         = concat (map (\<lambda>vrInfo.
             concat (map (\<lambda>(proto, inst).
               map (\<lambda>state.
                 \<lparr>desc = vrrpStateDesc, valType = GaugeValue,
                  val = (if EqualFold (Status inst) state then 1 else 0),
                  labelValues = [proto, FormatUint_10 (unat (Vrid vrInfo)), Interface vrInfo,
                                 Subinterface inst, state]\<rparr>)
                 [''Initialize'', ''Master'', ''Backup''])
               [(''v4'', V4Info vrInfo), (''v6'', V6Info vrInfo)]))
             jsonList)
     \<and> length (filter isStateGauge ms) = 6 * length jsonList"
proof -
  assume dec: "json_Unmarshal b = Inr jsonList"
  let ?ms = "concat (map recordObservations jsonList)"
  have f: "filter isStateGauge ?ms
      = concat (map (\<lambda>vrInfo.
          stateObservations ''v4'' (Vrid vrInfo) (Interface vrInfo) (V4Info vrInfo)
          @ stateObservations ''v6'' (Vrid vrInfo) (Interface vrInfo) (V6Info vrInfo)) jsonList)"
    by (simp add: filter_concat comp_def filter_isStateGauge_record)
  have 1: "processVRRPInfo ch b getVRRPDesc = Some (ch @ ?ms, None)"
    by (rule processVRRPInfo_closed [OF dec])
  have 2: "filter isStateGauge ?ms
         = concat (map (\<lambda>vrInfo.
             concat (map (\<lambda>(proto, inst).
               map (\<lambda>state.
                 \<lparr>desc = vrrpStateDesc, valType = GaugeValue,
                  val = (if EqualFold (Status inst) state then 1 else 0),
                  labelValues = [proto, FormatUint_10 (unat (Vrid vrInfo)), Interface vrInfo,
                                 Subinterface inst, state]\<rparr>)
                 [''Initialize'', ''Master'', ''Backup''])
               [(''v4'', V4Info vrInfo), (''v6'', V6Info vrInfo)]))
             jsonList)"
    unfolding f stateObservations_unfold by simp
  have 3: "length (filter isStateGauge ?ms) = 6 * length jsonList"
    unfolding f by (induction jsonList) (simp_all add: stateObservations_def)
  show ?thesis
    using 1 2 3 by (intro exI [of _ ?ms] conjI)
qed

text \<open>The example of the spec: the missing v6 sub-record still gets its three gauges.\<close>

theorem C2_state_block_witness:
  \<open>json_Unmarshal
      ''[{"vrid":1,"interface":"eth0","v4":{"status":"Master","stats":{"adverTx":5}}}]''
     = Inr [\<lparr>Vrid = 1, Interface = ''eth0'',
             V6Info = \<lparr>Subinterface = [], Status = [],
               Statistics = \<lparr>AdverTx = None, AdverRx = None, GarpTx = None,
                 NeighborAdverTx = None, Transitions = None\<rparr>\<rparr>,
             V4Info = \<lparr>Subinterface = [], Status = ''Master'',
               Statistics = \<lparr>AdverTx = Some 5, AdverRx = None, GarpTx = None,
                 NeighborAdverTx = None, Transitions = None\<rparr>\<rparr>\<rparr>]
   \<and> (\<exists>ms. processVRRPInfo []
              ''[{"vrid":1,"interface":"eth0","v4":{"status":"Master","stats":{"adverTx":5}}}]''
              getVRRPDesc = Some (ms, None)
          \<and> map shown (filter isStateGauge ms)
              = [(''frr_vrrp_state'', [''v4'', ''1'', ''eth0'', '''', ''Initialize''], 0),
                 (''frr_vrrp_state'', [''v4'', ''1'', ''eth0'', '''', ''Master''], 1),
                 (''frr_vrrp_state'', [''v4'', ''1'', ''eth0'', '''', ''Backup''], 0),
                 (''frr_vrrp_state'', [''v6'', ''1'', ''eth0'', '''', ''Initialize''], 0),
                 (''frr_vrrp_state'', [''v6'', ''1'', ''eth0'', '''', ''Master''], 0),
                 (''frr_vrrp_state'', [''v6'', ''1'', ''eth0'', '''', ''Backup''], 0)]
          \<and> length (filter isStateGauge ms) = 6)\<close>
proof -
  have e: "map shown
             [stateGauge [''v4'', FormatUint_10 1, ''eth0'', []] ''Master'' ''Initialize'',
              stateGauge [''v4'', FormatUint_10 1, ''eth0'', []] ''Master'' ''Master'',
              stateGauge [''v4'', FormatUint_10 1, ''eth0'', []] ''Master'' ''Backup'',
              stateGauge [''v6'', FormatUint_10 1, ''eth0'', []] [] ''Initialize'',
              stateGauge [''v6'', FormatUint_10 1, ''eth0'', []] [] ''Master'',
              stateGauge [''v6'', FormatUint_10 1, ''eth0'', []] [] ''Backup'']
           = [(''frr_vrrp_state'', [''v4'', ''1'', ''eth0'', '''', ''Initialize''], 0),
              (''frr_vrrp_state'', [''v4'', ''1'', ''eth0'', '''', ''Master''], 1),
              (''frr_vrrp_state'', [''v4'', ''1'', ''eth0'', '''', ''Backup''], 0),
              (''frr_vrrp_state'', [''v6'', ''1'', ''eth0'', '''', ''Initialize''], 0),
              (''frr_vrrp_state'', [''v6'', ''1'', ''eth0'', '''', ''Master''], 0),
              (''frr_vrrp_state'', [''v6'', ''1'', ''eth0'', '''', ''Backup''], 0)]"
    by (simp add: emit_eval fold_eval)
  have \<open>\<exists>ms. processVRRPInfo []
              ''[{"vrid":1,"interface":"eth0","v4":{"status":"Master","stats":{"adverTx":5}}}]''
              getVRRPDesc = Some (ms, None)
          \<and> filter isStateGauge ms
              = [stateGauge [''v4'', FormatUint_10 1, ''eth0'', []] ''Master'' ''Initialize'',
                 stateGauge [''v4'', FormatUint_10 1, ''eth0'', []] ''Master'' ''Master'',
                 stateGauge [''v4'', FormatUint_10 1, ''eth0'', []] ''Master'' ''Backup'',
                 stateGauge [''v6'', FormatUint_10 1, ''eth0'', []] [] ''Initialize'',
                 stateGauge [''v6'', FormatUint_10 1, ''eth0'', []] [] ''Master'',
                 stateGauge [''v6'', FormatUint_10 1, ''eth0'', []] [] ''Backup'']
          \<and> length (filter isStateGauge ms) = 6\<close>
    using C2_state_block_for_both_families [OF example_decoded, of "[]"]
    by (simp add: stateGauge_def)
  then obtain ms where m:
    \<open>processVRRPInfo []
          ''[{"vrid":1,"interface":"eth0","v4":{"status":"Master","stats":{"adverTx":5}}}]''
          getVRRPDesc = Some (ms, None)
          \<and> filter isStateGauge ms
              = [stateGauge [''v4'', FormatUint_10 1, ''eth0'', []] ''Master'' ''Initialize'',
                 stateGauge [''v4'', FormatUint_10 1, ''eth0'', []] ''Master'' ''Master'',
                 stateGauge [''v4'', FormatUint_10 1, ''eth0'', []] ''Master'' ''Backup'',
                 stateGauge [''v6'', FormatUint_10 1, ''eth0'', []] [] ''Initialize'',
                 stateGauge [''v6'', FormatUint_10 1, ''eth0'', []] [] ''Master'',
                 stateGauge [''v6'', FormatUint_10 1, ''eth0'', []] [] ''Backup'']
          \<and> length (filter isStateGauge ms) = 6\<close> ..
  show ?thesis
  proof (intro conjI exI [of _ ms])
    show \<open>json_Unmarshal
      ''[{"vrid":1,"interface":"eth0","v4":{"status":"Master","stats":{"adverTx":5}}}]''
     = Inr [\<lparr>Vrid = 1, Interface = ''eth0'',
             V6Info = \<lparr>Subinterface = [], Status = [],
               Statistics = \<lparr>AdverTx = None, AdverRx = None, GarpTx = None,
                 NeighborAdverTx = None, Transitions = None\<rparr>\<rparr>,
             V4Info = \<lparr>Subinterface = [], Status = ''Master'',
               Statistics = \<lparr>AdverTx = Some 5, AdverRx = None, GarpTx = None,
                 NeighborAdverTx = None, Transitions = None\<rparr>\<rparr>\<rparr>]\<close>
      by (rule example_decoded)
    show \<open>processVRRPInfo []
          ''[{"vrid":1,"interface":"eth0","v4":{"status":"Master","stats":{"adverTx":5}}}]''
          getVRRPDesc = Some (ms, None)\<close>
      by (rule m [THEN conjunct1])
    show "map shown (filter isStateGauge ms)
              = [(''frr_vrrp_state'', [''v4'', ''1'', ''eth0'', '''', ''Initialize''], 0),
                 (''frr_vrrp_state'', [''v4'', ''1'', ''eth0'', '''', ''Master''], 1),
                 (''frr_vrrp_state'', [''v4'', ''1'', ''eth0'', '''', ''Backup''], 0),
                 (''frr_vrrp_state'', [''v6'', ''1'', ''eth0'', '''', ''Initialize''], 0),
                 (''frr_vrrp_state'', [''v6'', ''1'', ''eth0'', '''', ''Master''], 0),
                 (''frr_vrrp_state'', [''v6'', ''1'', ''eth0'', '''', ''Backup''], 0)]"
      unfolding m [THEN conjunct2, THEN conjunct1] by (rule e)
    show "length (filter isStateGauge ms) = 6"
      by (rule m [THEN conjunct2, THEN conjunct2])
  qed
qed

section \<open>What the BFD collector emits\<close>

lemma processBFDPeers_records_closed:
  "processBFDPeers_records isUp ch peers
     = Some (ch @ concat (map (\<lambda>p.
         [\<lparr>desc = bfdPeerUptimeDesc, valType = CounterValue, val = real (bfdUptime p),
           labelValues = [bfdLocal p, bfdPeer p]\<rparr>,
          \<lparr>desc = bfdPeerStateDesc, valType = GaugeValue,
           val = (if isUp (bfdStatus p) then 1 else 0),
           labelValues = [bfdLocal p, bfdPeer p]\<rparr>]) peers))"
proof (induction peers arbitrary: ch)
  case Nil
  show ?case by simp
next
  case (Cons p rest)
  show ?case
    by (simp add: Cons.IH newCounter_def newGauge_def newMetric_def bfdPeerUptimeDesc_def
        bfdPeerStateDesc_def colPromDesc_def Let_def)
qed

lemma processBFDPeers_closed:
  "decode b = Inr peers \<Longrightarrow>
   processBFDPeers decode isUp ch b
     = Some (ch @ \<lparr>desc = bfdPeerCountDesc, valType = GaugeValue, val = real (length peers),
                    labelValues = []\<rparr>
              # concat (map (\<lambda>p.
                  [\<lparr>desc = bfdPeerUptimeDesc, valType = CounterValue, val = real (bfdUptime p),
                    labelValues = [bfdLocal p, bfdPeer p]\<rparr>,
                   \<lparr>desc = bfdPeerStateDesc, valType = GaugeValue,
                    val = (if isUp (bfdStatus p) then 1 else 0),
                    labelValues = [bfdLocal p, bfdPeer p]\<rparr>]) peers), None)"
  by (simp add: processBFDPeers_def processBFDPeers_records_closed newGauge_def newMetric_def
      bfdPeerCountDesc_def colPromDesc_def)

lemma fqName_bfd:
  "fqName bfdPeerCountDesc = ''frr_bfd_peer_count''"
  "fqName bfdPeerUptimeDesc = ''frr_bfd_peer_uptime''"
  "fqName bfdPeerStateDesc = ''frr_bfd_peer_state''"
  by (simp_all add: bfdPeerCountDesc_def bfdPeerUptimeDesc_def bfdPeerStateDesc_def
      colPromDesc_def namespace_def bfdSubsystem_def)

text \<open>
  C8: for a decoded peer table the BFD collector returns no error and sends one
  peer-count gauge without labels, whose value is the number of records whatever
  their status, and then for each record one uptime counter and one state gauge
  labelled by the local and the peer address, the state being 1 when the status
  denotes up and 0 otherwise.
\<close>

theorem C8_bfd_peer_count_and_states:
  "decode b = Inr peers \<Longrightarrow>
   processBFDPeers decode isUp ch b
     = Some (ch @ \<lparr>desc = bfdPeerCountDesc, valType = GaugeValue, val = real (length peers),
                    labelValues = []\<rparr>
              # concat (map (\<lambda>p.
                  [\<lparr>desc = bfdPeerUptimeDesc, valType = CounterValue, val = real (bfdUptime p),
                    labelValues = [bfdLocal p, bfdPeer p]\<rparr>,
                   \<lparr>desc = bfdPeerStateDesc, valType = GaugeValue,
                    val = (if isUp (bfdStatus p) then 1 else 0),
                    labelValues = [bfdLocal p, bfdPeer p]\<rparr>]) peers), None)"
  by (rule processBFDPeers_closed)

text \<open>The three peers of the example: count 3, the three uptimes, states 1, 1 and 0.\<close>

theorem C8_bfd_example_witness:
  "exampleDecode [] = Inr examplePeers
   \<and> map_option (map shown \<circ> fst) (processBFDPeers exampleDecode exampleIsUp [] [])
       = Some [(''frr_bfd_peer_count'', [], 3),
               (''frr_bfd_peer_uptime'', [''10.10.141.81'', ''10.10.141.61''], 847716),
               (''frr_bfd_peer_state'', [''10.10.141.81'', ''10.10.141.61''], 1),
               (''frr_bfd_peer_uptime'', [''10.10.141.81'', ''10.10.141.62''], 847595),
               (''frr_bfd_peer_state'', [''10.10.141.81'', ''10.10.141.62''], 1),
               (''frr_bfd_peer_uptime'', [''10.10.141.81'', ''10.10.141.63''], 847888),
               (''frr_bfd_peer_state'', [''10.10.141.81'', ''10.10.141.63''], 0)]"
proof -
  have h: "exampleDecode [] = Inr examplePeers"
    by (simp add: exampleDecode_def)
  show ?thesis
    using h C8_bfd_peer_count_and_states [of exampleDecode "[]" examplePeers exampleIsUp "[]"]
    by (simp add: examplePeers_def exampleIsUp_def shown_def fqName_bfd fold_eval)
qed

section \<open>The values of the observations\<close>

lemma example_decoded_record:
  \<open>json_Unmarshal
      ''[{"vrid":1,"interface":"eth0","v4":{"status":"Master","stats":{"adverTx":5}}}]''
     = Inr [exampleRecord]\<close>
  by (simp only: example_decoded exampleRecord_def)

lemma list_all_counterObservations:
  "list_all (\<lambda>m. if valType m = CounterValue then 0 \<le> val m else (val m = 0 \<or> val m = 1))
     (counterObservations d ls field)"
  by (cases field) (simp_all add: counterObservations_def del: of_nat_unat)

lemma values_instanceObservations:
  "list_all (\<lambda>m. if valType m = CounterValue then 0 \<le> val m else (val m = 0 \<or> val m = 1))
     (instanceObservations proto vrid iface inst)"
  by (simp add: instanceObservations_def stateObservations_def statObservations_def
      stateGauge_def list_all_counterObservations)

lemma values_recordObservations:
  "list_all (\<lambda>m. if valType m = CounterValue then 0 \<le> val m else (val m = 0 \<or> val m = 1))
     (recordObservations vrInfo)"
  by (simp add: recordObservations_def values_instanceObservations)

lemma list_all_concat_map:
  "(\<And>x. list_all P (f x)) \<Longrightarrow> list_all P (concat (map f xs))"
  by (induction xs) simp_all

lemma bfd_count_not_state: "bfdPeerStateDesc \<noteq> bfdPeerCountDesc"
  by (rule fqName_neq) (simp add: fqName_bfd)

text \<open>
  C6 as stated fails: the peer-count observation of the BFD collector is a gauge, and
  for the three peers of the example its value is 3.
\<close>

theorem C6_gauge_counterexample:
  "map_option (gaugeValues \<circ> fst) (processBFDPeers exampleDecode exampleIsUp [] [])
     = Some [3, 1, 1, 0]"
proof -
  have h: "exampleDecode [] = Inr examplePeers"
    by (simp add: exampleDecode_def)
  show ?thesis
    by (simp add: processBFDPeers_closed [of exampleDecode "[]" examplePeers, OF h]
        examplePeers_def exampleIsUp_def gaugeValues_def fold_eval)
qed

text \<open>
  C6, as amended: for a decoded input every counter observation has a value that is
  not negative, and every state gauge (the VRRP state and the BFD peer state) has
  the value 0 or 1; the BFD peer-count gauge has the number of records as its
  value, which is not limited to 0 and 1. The VRRP collector sends no gauge other
  than state gauges.
\<close>

theorem C6_counters_nonnegative_states_binary:
  "json_Unmarshal b = Inr jsonList \<Longrightarrow> decode b' = Inr peers \<Longrightarrow>
   (\<exists>ms. processVRRPInfo ch b getVRRPDesc = Some (ch @ ms, None)
      \<and> list_all (\<lambda>m. if valType m = CounterValue then 0 \<le> val m
                       else (val m = 0 \<or> val m = 1)) ms)
   \<and> (\<exists>ms. processBFDPeers decode isUp ch b' = Some (ch @ ms, None)
      \<and> list_all (\<lambda>m. if valType m = CounterValue then 0 \<le> val m
                       else if desc m = bfdPeerCountDesc then val m = real (length peers)
                       else (val m = 0 \<or> val m = 1)) ms)"
proof (intro conjI exI)
  assume dec: "json_Unmarshal b = Inr jsonList" and bdec: "decode b' = Inr peers"
  show "processVRRPInfo ch b getVRRPDesc
          = Some (ch @ concat (map recordObservations jsonList), None)"
    by (rule processVRRPInfo_closed [OF dec])
  show "list_all (\<lambda>m. if valType m = CounterValue then 0 \<le> val m
                       else (val m = 0 \<or> val m = 1))
          (concat (map recordObservations jsonList))"
    by (rule list_all_concat_map) (rule values_recordObservations)
  show "processBFDPeers decode isUp ch b'
     = Some (ch @ \<lparr>desc = bfdPeerCountDesc, valType = GaugeValue, val = real (length peers),
                    labelValues = []\<rparr>
              # concat (map (\<lambda>p.
                  [\<lparr>desc = bfdPeerUptimeDesc, valType = CounterValue, val = real (bfdUptime p),
                    labelValues = [bfdLocal p, bfdPeer p]\<rparr>,
                   \<lparr>desc = bfdPeerStateDesc, valType = GaugeValue,
                    val = (if isUp (bfdStatus p) then 1 else 0),
                    labelValues = [bfdLocal p, bfdPeer p]\<rparr>]) peers), None)"
    by (rule processBFDPeers_closed [of decode b' peers, OF bdec])
  have "list_all (\<lambda>m. if valType m = CounterValue then 0 \<le> val m
                       else if desc m = bfdPeerCountDesc then val m = real (length peers)
                       else (val m = 0 \<or> val m = 1))
          (concat (map (\<lambda>p.
                  [\<lparr>desc = bfdPeerUptimeDesc, valType = CounterValue, val = real (bfdUptime p),
                    labelValues = [bfdLocal p, bfdPeer p]\<rparr>,
                   \<lparr>desc = bfdPeerStateDesc, valType = GaugeValue,
                    val = (if isUp (bfdStatus p) then 1 else 0),
                    labelValues = [bfdLocal p, bfdPeer p]\<rparr>]) peers))"
    by (rule list_all_concat_map) (simp add: bfd_count_not_state)
  then show "list_all (\<lambda>m. if valType m = CounterValue then 0 \<le> val m
                       else if desc m = bfdPeerCountDesc then val m = real (length peers)
                       else (val m = 0 \<or> val m = 1))
          (\<lparr>desc = bfdPeerCountDesc, valType = GaugeValue, val = real (length peers),
                    labelValues = []\<rparr>
              # concat (map (\<lambda>p.
                  [\<lparr>desc = bfdPeerUptimeDesc, valType = CounterValue, val = real (bfdUptime p),
                    labelValues = [bfdLocal p, bfdPeer p]\<rparr>,
                   \<lparr>desc = bfdPeerStateDesc, valType = GaugeValue,
                    val = (if isUp (bfdStatus p) then 1 else 0),
                    labelValues = [bfdLocal p, bfdPeer p]\<rparr>]) peers))"
    by simp
qed

text \<open>The VRRP example and the three BFD peers.\<close>

theorem C6_values_witness:
  \<open>json_Unmarshal
      ''[{"vrid":1,"interface":"eth0","v4":{"status":"Master","stats":{"adverTx":5}}}]''
     = Inr [exampleRecord]
   \<and> exampleDecode [] = Inr examplePeers
   \<and> (\<exists>ms. processVRRPInfo []
              ''[{"vrid":1,"interface":"eth0","v4":{"status":"Master","stats":{"adverTx":5}}}]''
              getVRRPDesc = Some ([] @ ms, None)
      \<and> list_all (\<lambda>m. if valType m = CounterValue then 0 \<le> val m
                       else (val m = 0 \<or> val m = 1)) ms)
   \<and> (\<exists>ms. processBFDPeers exampleDecode exampleIsUp [] [] = Some ([] @ ms, None)
      \<and> list_all (\<lambda>m. if valType m = CounterValue then 0 \<le> val m
                       else if desc m = bfdPeerCountDesc
                         then val m = real (length examplePeers)
                       else (val m = 0 \<or> val m = 1)) ms)\<close>
proof -
  have h: "exampleDecode [] = Inr examplePeers"
    by (simp add: exampleDecode_def)
  note t = C6_counters_nonnegative_states_binary
    [of _ "[exampleRecord]" exampleDecode "[]" examplePeers "[]" exampleIsUp,
     OF example_decoded_record h]
  show ?thesis
    by (intro conjI) (rule example_decoded_record h t [THEN conjunct1] t [THEN conjunct2])+
qed

section \<open>The label values\<close>

lemma FormatUint_10_not_empty: "FormatUint_10 i \<noteq> []"
  by (subst FormatUint_10.simps) simp

lemma labels_counterObservations:
  "d \<noteq> vrrpStateDesc \<Longrightarrow> length (variableLabels d) = 4 \<Longrightarrow>
   list_all (\<lambda>m. desc m \<noteq> vrrpStateDesc \<and> length (variableLabels (desc m)) = 4
                  \<and> labelValues m = ls)
     (counterObservations d ls field)"
  by (cases field) (simp_all add: counterObservations_def)

lemma labels_statObservations:
  "list_all (\<lambda>m. desc m \<noteq> vrrpStateDesc \<and> length (variableLabels (desc m)) = 4
                  \<and> labelValues m = baseLabels proto vrid iface inst)
     (statObservations proto vrid iface inst)"
  by (simp add: statObservations_def labels_counterObservations counter_desc_not_state
      variableLabels_descs)

lemma labels_stateObservations:
  "list_all (\<lambda>m. desc m = vrrpStateDesc
                  \<and> list_ex (\<lambda>state. labelValues m = baseLabels proto vrid iface inst @ [state])
                       vrrpStates)
     (stateObservations proto vrid iface inst)"
  by (simp add: stateObservations_def stateGauge_def vrrpStates_names)

lemma labels_instanceObservations:
  assumes "m \<in> set (instanceObservations proto vrid iface inst)"
  shows "length (labelValues m) = length (variableLabels (desc m))
         \<and> length (labelValues m) = (if desc m = vrrpStateDesc then 5 else 4)
         \<and> take 4 (labelValues m) = [proto, FormatUint_10 (unat vrid), iface, Subinterface inst]
         \<and> (if desc m = vrrpStateDesc
             then list_ex (\<lambda>state. drop 4 (labelValues m) = [state]) vrrpStates
             else drop 4 (labelValues m) = [])"
proof -
  from assms consider
    (state) "m \<in> set (stateObservations proto vrid iface inst)"
    | (stat) "m \<in> set (statObservations proto vrid iface inst)"
    by (auto simp: instanceObservations_def)
  then show ?thesis
  proof cases
    case state
    with labels_stateObservations [of proto vrid iface inst]
    have d: "desc m = vrrpStateDesc"
      and l: "list_ex (\<lambda>state. labelValues m = baseLabels proto vrid iface inst @ [state])
                vrrpStates"
      by (simp_all add: list_all_iff)
    from l obtain state where "labelValues m = baseLabels proto vrid iface inst @ [state]"
      and "state \<in> set vrrpStates"
      by (auto simp: list_ex_iff)
    then show ?thesis
      using d by (auto simp: baseLabels_def variableLabels_descs list_ex_iff)
  next
    case stat
    with labels_statObservations [of proto vrid iface inst]
    have "desc m \<noteq> vrrpStateDesc" "length (variableLabels (desc m)) = 4"
      "labelValues m = baseLabels proto vrid iface inst"
      by (simp_all add: list_all_iff)
    then show ?thesis
      by (simp add: baseLabels_def)
  qed
qed

lemma vrid_only_decoded:
  \<open>json_Unmarshal ''[{"vrid":7}]''
     = Inr [\<lparr>Vrid = 7, Interface = [],
             V6Info = \<lparr>Subinterface = [], Status = [],
               Statistics = \<lparr>AdverTx = None, AdverRx = None, GarpTx = None,
                 NeighborAdverTx = None, Transitions = None\<rparr>\<rparr>,
             V4Info = \<lparr>Subinterface = [], Status = [],
               Statistics = \<lparr>AdverTx = None, AdverRx = None, GarpTx = None,
                 NeighborAdverTx = None, Transitions = None\<rparr>\<rparr>\<rparr>]\<close>
  by (simp add: fold_eval scan_eval store_eval)

text \<open>
  C7 as stated fails: a record that gives no interface and no sub-records still gets
  its six state observations, and their interface and subinterface label values are
  the empty string.
\<close>

theorem C7_empty_label_counterexample:
  \<open>map_option (map shown \<circ> fst) (processVRRPInfo [] ''[{"vrid":7}]'' getVRRPDesc)
   = Some [(''frr_vrrp_state'', [''v4'', ''7'', '''', '''', ''Initialize''], 0),
           (''frr_vrrp_state'', [''v4'', ''7'', '''', '''', ''Master''], 0),
           (''frr_vrrp_state'', [''v4'', ''7'', '''', '''', ''Backup''], 0),
           (''frr_vrrp_state'', [''v6'', ''7'', '''', '''', ''Initialize''], 0),
           (''frr_vrrp_state'', [''v6'', ''7'', '''', '''', ''Master''], 0),
           (''frr_vrrp_state'', [''v6'', ''7'', '''', '''', ''Backup''], 0)]\<close>
  by (simp add: processVRRPInfo_closed [OF vrid_only_decoded] emit_eval fold_eval)

text \<open>
  C7, as amended: every observation that \<open>processVRRPInfo\<close> sends carries as many
  label values as its descriptor has label names, 5 for the state metric and 4 for a
  counter metric, in the order of the names: the family (v4 or v6), the vrid in
  decimal, the interface and the subinterface of a decoded record and, for the state
  metric, one of the three state names. The family, the vrid and the state name are
  never empty; the interface and the subinterface are the strings of the decoded
  record, which are empty when the input gives none, and the observation is sent all
  the same.
\<close>

theorem C7_labels_complete_and_ordered:
  "json_Unmarshal b = Inr jsonList \<Longrightarrow>
   \<exists>ms. processVRRPInfo ch b getVRRPDesc = Some (ch @ ms, None)
     \<and> list_all (\<lambda>m.
           length (labelValues m) = length (variableLabels (desc m))
           \<and> length (labelValues m) = (if desc m = vrrpStateDesc then 5 else 4)
           \<and> list_ex (\<lambda>vrInfo.
                 take 4 (labelValues m)
                   = [''v4'', FormatUint_10 (unat (Vrid vrInfo)), Interface vrInfo,
                      Subinterface (V4Info vrInfo)]
                 \<or> take 4 (labelValues m)
                   = [''v6'', FormatUint_10 (unat (Vrid vrInfo)), Interface vrInfo,
                      Subinterface (V6Info vrInfo)]) jsonList
           \<and> labelValues m ! 0 \<noteq> [] \<and> labelValues m ! 1 \<noteq> []
           \<and> (if desc m = vrrpStateDesc
               then list_ex (\<lambda>state. drop 4 (labelValues m) = [state] \<and> state \<noteq> [])
                      [''Initialize'', ''Master'', ''Backup'']
               else drop 4 (labelValues m) = [])) ms"
proof (intro exI conjI)
  assume dec: "json_Unmarshal b = Inr jsonList"
  let ?P = "\<lambda>m.
           length (labelValues m) = length (variableLabels (desc m))
           \<and> length (labelValues m) = (if desc m = vrrpStateDesc then 5 else 4)
           \<and> list_ex (\<lambda>vrInfo.
                 take 4 (labelValues m)
                   = [''v4'', FormatUint_10 (unat (Vrid vrInfo)), Interface vrInfo,
                      Subinterface (V4Info vrInfo)]
                 \<or> take 4 (labelValues m)
                   = [''v6'', FormatUint_10 (unat (Vrid vrInfo)), Interface vrInfo,
                      Subinterface (V6Info vrInfo)]) jsonList
           \<and> labelValues m ! 0 \<noteq> [] \<and> labelValues m ! 1 \<noteq> []
           \<and> (if desc m = vrrpStateDesc
               then list_ex (\<lambda>state. drop 4 (labelValues m) = [state] \<and> state \<noteq> [])
                      [''Initialize'', ''Master'', ''Backup'']
               else drop 4 (labelValues m) = [])"
  show "processVRRPInfo ch b getVRRPDesc
          = Some (ch @ concat (map recordObservations jsonList), None)"
    by (rule processVRRPInfo_closed [OF dec])
  have P: "?P m" if m: "m \<in> set (recordObservations vrInfo)" and v: "vrInfo \<in> set jsonList"
    for m vrInfo
  proof -
    from m consider
      (v4) "m \<in> set (instanceObservations ''v4'' (Vrid vrInfo) (Interface vrInfo)
                        (V4Info vrInfo))"
      | (v6) "m \<in> set (instanceObservations ''v6'' (Vrid vrInfo) (Interface vrInfo)
                          (V6Info vrInfo))"
      by (auto simp: recordObservations_def)
    then show ?thesis
    proof cases
      case v4
      note l = labels_instanceObservations [OF v4]
      from l have t: "take 4 (labelValues m)
          = [''v4'', FormatUint_10 (unat (Vrid vrInfo)), Interface vrInfo,
             Subinterface (V4Info vrInfo)]"
        by simp
      from l have len: "4 \<le> length (labelValues m)"
        by (simp split: if_splits)
      have n: "labelValues m ! 0 = ''v4''"
        "labelValues m ! 1 = FormatUint_10 (unat (Vrid vrInfo))"
        using t len nth_take [of 0 4 "labelValues m"] nth_take [of 1 4 "labelValues m"]
        by simp_all
      show ?thesis
        using l t v n
        by (auto simp: list_ex_iff FormatUint_10_not_empty vrrpStates_names)
    next
      case v6
      note l = labels_instanceObservations [OF v6]
      from l have t: "take 4 (labelValues m)
          = [''v6'', FormatUint_10 (unat (Vrid vrInfo)), Interface vrInfo,
             Subinterface (V6Info vrInfo)]"
        by simp
      from l have len: "4 \<le> length (labelValues m)"
        by (simp split: if_splits)
      have n: "labelValues m ! 0 = ''v6''"
        "labelValues m ! 1 = FormatUint_10 (unat (Vrid vrInfo))"
        using t len nth_take [of 0 4 "labelValues m"] nth_take [of 1 4 "labelValues m"]
        by simp_all
      show ?thesis
        using l t v n
        by (auto simp: list_ex_iff FormatUint_10_not_empty vrrpStates_names)
    qed
  qed
  show "list_all ?P (concat (map recordObservations jsonList))"
    unfolding list_all_iff
  proof
    fix m
    assume "m \<in> set (concat (map recordObservations jsonList))"
    then obtain vrInfo where "m \<in> set (recordObservations vrInfo)" "vrInfo \<in> set jsonList"
      by auto
    then show "?P m" by (rule P)
  qed
qed

text \<open>The example of the spec, whose subinterface label values are empty.\<close>

theorem C7_labels_witness:
  \<open>json_Unmarshal
      ''[{"vrid":1,"interface":"eth0","v4":{"status":"Master","stats":{"adverTx":5}}}]''
     = Inr [exampleRecord]
   \<and> (\<exists>ms. processVRRPInfo []
            ''[{"vrid":1,"interface":"eth0","v4":{"status":"Master","stats":{"adverTx":5}}}]''
            getVRRPDesc = Some ([] @ ms, None)
     \<and> list_all (\<lambda>m.
           length (labelValues m) = length (variableLabels (desc m))
           \<and> length (labelValues m) = (if desc m = vrrpStateDesc then 5 else 4)
           \<and> list_ex (\<lambda>vrInfo.
                 take 4 (labelValues m)
                   = [''v4'', FormatUint_10 (unat (Vrid vrInfo)), Interface vrInfo,
                      Subinterface (V4Info vrInfo)]
                 \<or> take 4 (labelValues m)
                   = [''v6'', FormatUint_10 (unat (Vrid vrInfo)), Interface vrInfo,
                      Subinterface (V6Info vrInfo)]) [exampleRecord]
           \<and> labelValues m ! 0 \<noteq> [] \<and> labelValues m ! 1 \<noteq> []
           \<and> (if desc m = vrrpStateDesc
               then list_ex (\<lambda>state. drop 4 (labelValues m) = [state] \<and> state \<noteq> [])
                      [''Initialize'', ''Master'', ''Backup'']
               else drop 4 (labelValues m) = [])) ms)\<close>
proof -
  note t = C7_labels_complete_and_ordered
    [of _ "[exampleRecord]" "[]", OF example_decoded_record]
  show ?thesis
    by (intro conjI) (rule example_decoded_record t)+
qed

section \<open>Which inputs decode\<close>

text \<open>
  A store succeeds exactly on the acceptable values, and fails with a type error on
  every other value.
\<close>

lemma unmarshal_uint32_ok:
  "wellTyped_uint32 j \<Longrightarrow> \<exists>x. unmarshal_uint32 j cur = Inr x"
  by (cases j) (auto simp: wellTyped_uint32_def split: option.splits)

lemma unmarshal_uint32_err:
  "\<not> wellTyped_uint32 j \<Longrightarrow> \<exists>e. unmarshal_uint32 j cur = Inl (UnmarshalTypeError e)"
  by (cases j) (auto simp: wellTyped_uint32_def split: option.splits)

lemma unmarshal_string_ok:
  "wellTyped_string j \<Longrightarrow> \<exists>x. unmarshal_string j cur = Inr x"
  by (cases j) (auto simp: wellTyped_string_def)

lemma unmarshal_string_err:
  "\<not> wellTyped_string j \<Longrightarrow> \<exists>e. unmarshal_string j cur = Inl (UnmarshalTypeError e)"
  by (cases j) (auto simp: wellTyped_string_def)

lemma unmarshal_ptr_uint32_ok:
  "wellTyped_uint32 j \<Longrightarrow> \<exists>x. unmarshal_ptr_uint32 j cur = Inr x"
  using unmarshal_uint32_ok [of j "case cur of None \<Rightarrow> 0 | Some v \<Rightarrow> v"]
  by (auto simp: unmarshal_ptr_uint32_def)

lemma unmarshal_ptr_uint32_err:
  "\<not> wellTyped_uint32 j \<Longrightarrow> \<exists>e. unmarshal_ptr_uint32 j cur = Inl (UnmarshalTypeError e)"
  using unmarshal_uint32_err [of j "case cur of None \<Rightarrow> 0 | Some v \<Rightarrow> v"]
  by (auto simp: unmarshal_ptr_uint32_def wellTyped_uint32_def)

lemma map_sum_ok: "\<exists>x. r = Inr x \<Longrightarrow> \<exists>x. map_sum id f r = Inr x"
  by auto

lemma map_sum_err:
  "\<exists>e. r = Inl (UnmarshalTypeError e) \<Longrightarrow> \<exists>e. map_sum id f r = Inl (UnmarshalTypeError e)"
  by auto

lemma unmarshal_members_ok:
  assumes "\<And>k v cur. member k v \<Longrightarrow> \<exists>x. field k v cur = Inr x"
  shows "list_all (\<lambda>(k, v). member k v) kvs \<Longrightarrow> \<exists>x. unmarshal_members field kvs cur = Inr x"
proof (induction kvs arbitrary: cur)
  case Nil
  show ?case by simp
next
  case (Cons kv kvs)
  obtain k v where kv: "kv = (k, v)" by (cases kv)
  from Cons.prems kv have "member k v" and rest: "list_all (\<lambda>(k, v). member k v) kvs"
    by simp_all
  then obtain cur' where "field k v cur = Inr cur'"
    using assms by blast
  then show ?case
    using Cons.IH [OF rest, of cur'] kv by simp
qed

lemma unmarshal_members_err:
  assumes "\<And>k v cur. member k v \<Longrightarrow> \<exists>x. field k v cur = Inr x"
    and "\<And>k v cur. \<not> member k v \<Longrightarrow> \<exists>e. field k v cur = Inl (UnmarshalTypeError e)"
  shows "\<not> list_all (\<lambda>(k, v). member k v) kvs \<Longrightarrow>
         \<exists>e. unmarshal_members field kvs cur = Inl (UnmarshalTypeError e)"
proof (induction kvs arbitrary: cur)
  case Nil
  then show ?case by simp
next
  case (Cons kv kvs)
  obtain k v where kv: "kv = (k, v)" by (cases kv)
  show ?case
  proof (cases "member k v")
    case True
    then obtain cur' where c: "field k v cur = Inr cur'"
      using assms(1) by blast
    from Cons.prems kv True have "\<not> list_all (\<lambda>(k, v). member k v) kvs"
      by simp
    from Cons.IH [OF this, of cur'] show ?thesis
      using c kv by simp
  next
    case False
    then obtain e where "field k v cur = Inl (UnmarshalTypeError e)"
      using assms(2) by blast
    then show ?thesis
      using kv by simp
  qed
qed

lemma unmarshal_struct_ok:
  assumes "\<And>k v cur. member k v \<Longrightarrow> \<exists>x. field k v cur = Inr x"
  shows "wellTyped_struct member j \<Longrightarrow> \<exists>x. unmarshal_struct field j cur = Inr x"
  using unmarshal_members_ok [of member field, OF assms]
  by (cases j) (simp_all add: wellTyped_struct_def)

lemma unmarshal_struct_err:
  assumes "\<And>k v cur. member k v \<Longrightarrow> \<exists>x. field k v cur = Inr x"
    and "\<And>k v cur. \<not> member k v \<Longrightarrow> \<exists>e. field k v cur = Inl (UnmarshalTypeError e)"
  shows "\<not> wellTyped_struct member j \<Longrightarrow>
         \<exists>e. unmarshal_struct field j cur = Inl (UnmarshalTypeError e)"
  using unmarshal_members_err [of member field, OF assms]
  by (cases j) (simp_all add: wellTyped_struct_def)

lemma stats_field_ok:
  "stats_member k v \<Longrightarrow> \<exists>x. VrrpInstanceStats_field k v cur = Inr x"
  unfolding stats_member_def VrrpInstanceStats_field_def
  by (auto intro!: map_sum_ok unmarshal_ptr_uint32_ok split: if_splits)

lemma stats_field_err:
  "\<not> stats_member k v \<Longrightarrow> \<exists>e. VrrpInstanceStats_field k v cur = Inl (UnmarshalTypeError e)"
  unfolding stats_member_def VrrpInstanceStats_field_def
  by (auto intro!: map_sum_err unmarshal_ptr_uint32_err split: if_splits)

lemma info_field_ok:
  "info_member k v \<Longrightarrow> \<exists>x. VrrpInstanceInfo_field k v cur = Inr x"
  unfolding info_member_def VrrpInstanceInfo_field_def
  by (auto intro!: map_sum_ok unmarshal_string_ok
      unmarshal_struct_ok [of stats_member, OF stats_field_ok] split: if_splits)

lemma info_field_err:
  "\<not> info_member k v \<Longrightarrow> \<exists>e. VrrpInstanceInfo_field k v cur = Inl (UnmarshalTypeError e)"
  unfolding info_member_def VrrpInstanceInfo_field_def
  by (auto intro!: map_sum_err unmarshal_string_err
      unmarshal_struct_err [of stats_member, OF stats_field_ok stats_field_err]
      split: if_splits)

lemma vr_field_ok:
  "vr_member k v \<Longrightarrow> \<exists>x. VrrpVrInfo_field k v cur = Inr x"
  unfolding vr_member_def VrrpVrInfo_field_def
  by (auto intro!: map_sum_ok unmarshal_string_ok unmarshal_uint32_ok
      unmarshal_struct_ok [of info_member, OF info_field_ok] split: if_splits)

lemma vr_field_err:
  "\<not> vr_member k v \<Longrightarrow> \<exists>e. VrrpVrInfo_field k v cur = Inl (UnmarshalTypeError e)"
  unfolding vr_member_def VrrpVrInfo_field_def
  by (auto intro!: map_sum_err unmarshal_string_err unmarshal_uint32_err
      unmarshal_struct_err [of info_member, OF info_field_ok info_field_err]
      split: if_splits)

lemma unmarshal_elements_ok:
  "list_all (wellTyped_struct vr_member) es \<Longrightarrow> \<exists>xs. unmarshal_elements es = Inr xs"
proof (induction es)
  case Nil
  show ?case by simp
next
  case (Cons e es)
  then obtain xs where xs: "unmarshal_elements es = Inr xs" by auto
  from Cons.prems have "wellTyped_struct vr_member e" by simp
  from unmarshal_struct_ok [of vr_member VrrpVrInfo_field e zero_VrrpVrInfo, OF vr_field_ok this]
  obtain x where "unmarshal_struct VrrpVrInfo_field e zero_VrrpVrInfo = Inr x" ..
  then show ?case using xs by simp
qed

lemma unmarshal_elements_err:
  "\<not> list_all (wellTyped_struct vr_member) es \<Longrightarrow>
   \<exists>e. unmarshal_elements es = Inl (UnmarshalTypeError e)"
proof (induction es)
  case Nil
  then show ?case by simp
next
  case (Cons e es)
  show ?case
  proof (cases "wellTyped_struct vr_member e")
    case True
    from unmarshal_struct_ok [of vr_member VrrpVrInfo_field e zero_VrrpVrInfo, OF vr_field_ok this]
    obtain x where x: "unmarshal_struct VrrpVrInfo_field e zero_VrrpVrInfo = Inr x" ..
    from Cons.prems True have "\<not> list_all (wellTyped_struct vr_member) es" by simp
    from Cons.IH [OF this] obtain err where "unmarshal_elements es = Inl (UnmarshalTypeError err)" ..
    then show ?thesis using x by simp
  next
    case False
    from unmarshal_struct_err [of vr_member VrrpVrInfo_field e zero_VrrpVrInfo,
        OF vr_field_ok vr_field_err this]
    obtain err where "unmarshal_struct VrrpVrInfo_field e zero_VrrpVrInfo
        = Inl (UnmarshalTypeError err)" ..
    then show ?thesis by simp
  qed
qed

lemma unmarshal_slice_ok:
  "wellTyped_input j \<Longrightarrow> \<exists>xs. unmarshal_VrrpVrInfo_slice j = Inr xs"
  using unmarshal_elements_ok by (cases j) (simp_all add: wellTyped_input_def)

lemma unmarshal_slice_err:
  "\<not> wellTyped_input j \<Longrightarrow> \<exists>e. unmarshal_VrrpVrInfo_slice j = Inl (UnmarshalTypeError e)"
  using unmarshal_elements_err by (cases j) (simp_all add: wellTyped_input_def)

text \<open>
  C5 as stated fails: a record that lacks the interface and the v6 sub-record and
  has a member that the record shape does not know decodes without error; the
  missing fields hold their zero values and the unknown member is skipped.
\<close>

theorem C5_missing_and_extra_fields_counterexample:
  \<open>json_Unmarshal ''[{"vrid":1,"bogus":[1,2],"v4":{"status":"Backup"}}]''
     = Inr [\<lparr>Vrid = 1, Interface = [],
             V6Info = \<lparr>Subinterface = [], Status = [],
               Statistics = \<lparr>AdverTx = None, AdverRx = None, GarpTx = None,
                 NeighborAdverTx = None, Transitions = None\<rparr>\<rparr>,
             V4Info = \<lparr>Subinterface = [], Status = ''Backup'',
               Statistics = \<lparr>AdverTx = None, AdverRx = None, GarpTx = None,
                 NeighborAdverTx = None, Transitions = None\<rparr>\<rparr>\<rparr>]
   \<and> map_option snd
         (processVRRPInfo [] ''[{"vrid":1,"bogus":[1,2],"v4":{"status":"Backup"}}]''
            getVRRPDesc)
       = Some None\<close>
proof -
  have d: \<open>json_Unmarshal ''[{"vrid":1,"bogus":[1,2],"v4":{"status":"Backup"}}]''
     = Inr [\<lparr>Vrid = 1, Interface = [],
             V6Info = \<lparr>Subinterface = [], Status = [],
               Statistics = \<lparr>AdverTx = None, AdverRx = None, GarpTx = None,
                 NeighborAdverTx = None, Transitions = None\<rparr>\<rparr>,
             V4Info = \<lparr>Subinterface = [], Status = ''Backup'',
               Statistics = \<lparr>AdverTx = None, AdverRx = None, GarpTx = None,
                 NeighborAdverTx = None, Transitions = None\<rparr>\<rparr>\<rparr>]\<close>
    by (simp add: fold_eval scan_eval store_eval)
  show ?thesis
    by (rule conjI [OF d]) (simp add: processVRRPInfo_closed [OF d])
qed

text \<open>
  C5, as amended: \<open>processVRRPInfo\<close> fails with a decode error, and sends nothing,
  exactly when the bytes are not one well-formed JSON text (a syntax error) or some
  value has the wrong JSON type for the place where it stands (a type error): the
  input is not an array or \<open>null\<close>, a record or sub-record is not an object or
  \<open>null\<close>, the value of a string field is not a string or \<open>null\<close>, the value of
  an integer field is not \<open>null\<close> or an unsigned decimal integer below \<open>2 ^ 32\<close>.
  Missing and extra members are not errors: the empty object decodes to the zero
  record, and a member whose key selects no field leaves the record as it is.
\<close>

theorem C5_decode_error_iff_ill_typed:
  "(case json_parse b of
      None \<Rightarrow> processVRRPInfo ch b getVRRPDesc = Some (ch, Some SyntaxError)
    | Some j \<Rightarrow>
        if wellTyped_input j
        then (\<exists>ms. processVRRPInfo ch b getVRRPDesc = Some (ch @ ms, None))
        else (\<exists>e. processVRRPInfo ch b getVRRPDesc = Some (ch, Some (UnmarshalTypeError e))))
   \<and> unmarshal_struct VrrpVrInfo_field (JObject []) zero_VrrpVrInfo = Inr zero_VrrpVrInfo
   \<and> (EqualFold k ''Vrid'' \<or> EqualFold k ''Interface'' \<or> EqualFold k ''v6''
        \<or> EqualFold k ''v4'' \<or> VrrpVrInfo_field k v vrInfo = Inr vrInfo)
   \<and> (EqualFold k ''interface'' \<or> EqualFold k ''Status'' \<or> EqualFold k ''stats''
        \<or> VrrpInstanceInfo_field k v inst = Inr inst)
   \<and> (EqualFold k ''AdverTx'' \<or> EqualFold k ''AdverRx'' \<or> EqualFold k ''GarpTx''
        \<or> EqualFold k ''NeighborAdverTx'' \<or> EqualFold k ''Transitions''
        \<or> VrrpInstanceStats_field k v stats = Inr stats)"
proof (intro conjI)
  show "case json_parse b of
      None \<Rightarrow> processVRRPInfo ch b getVRRPDesc = Some (ch, Some SyntaxError)
    | Some j \<Rightarrow>
        if wellTyped_input j
        then (\<exists>ms. processVRRPInfo ch b getVRRPDesc = Some (ch @ ms, None))
        else (\<exists>e. processVRRPInfo ch b getVRRPDesc = Some (ch, Some (UnmarshalTypeError e)))"
  proof (cases "json_parse b")
    case None
    then show ?thesis
      by (simp add: processVRRPInfo_def json_Unmarshal_def)
  next
    case (Some j)
    show ?thesis
    proof (cases "wellTyped_input j")
      case True
      from unmarshal_slice_ok [OF True] obtain xs where "unmarshal_VrrpVrInfo_slice j = Inr xs" ..
      with Some have "json_Unmarshal b = Inr xs"
        by (simp add: json_Unmarshal_def)
      from processVRRPInfo_closed [OF this, of ch] show ?thesis
        using Some True by simp
    next
      case False
      from unmarshal_slice_err [OF False] obtain e
        where "unmarshal_VrrpVrInfo_slice j = Inl (UnmarshalTypeError e)" ..
      with Some have "json_Unmarshal b = Inl (UnmarshalTypeError e)"
        by (simp add: json_Unmarshal_def)
      then show ?thesis
        using Some False by (simp add: processVRRPInfo_def)
    qed
  qed
  show "unmarshal_struct VrrpVrInfo_field (JObject []) zero_VrrpVrInfo = Inr zero_VrrpVrInfo"
    by simp
  show "EqualFold k ''Vrid'' \<or> EqualFold k ''Interface'' \<or> EqualFold k ''v6''
        \<or> EqualFold k ''v4'' \<or> VrrpVrInfo_field k v vrInfo = Inr vrInfo"
    by (simp add: VrrpVrInfo_field_def)
  show "EqualFold k ''interface'' \<or> EqualFold k ''Status'' \<or> EqualFold k ''stats''
        \<or> VrrpInstanceInfo_field k v inst = Inr inst"
    by (simp add: VrrpInstanceInfo_field_def)
  show "EqualFold k ''AdverTx'' \<or> EqualFold k ''AdverRx'' \<or> EqualFold k ''GarpTx''
        \<or> EqualFold k ''NeighborAdverTx'' \<or> EqualFold k ''Transitions''
        \<or> VrrpInstanceStats_field k v stats = Inr stats"
    by (simp add: VrrpInstanceStats_field_def)
qed

lemmas shape_eval =
  wellTyped_input_def wellTyped_struct_def wellTyped_string_def wellTyped_uint32_def
  vr_member_def info_member_def stats_member_def ParseUint_10_def

text \<open>
  The three outcomes on concrete bytes: a truncated text, a vrid that is a string,
  and a record with a missing and an extra member.
\<close>

theorem C5_decode_outcomes_witness:
  \<open>processVRRPInfo [] ''[{"vrid":1,'' getVRRPDesc = Some ([], Some SyntaxError)
   \<and> (\<exists>e. processVRRPInfo [] ''[{"vrid":"1"}]'' getVRRPDesc
          = Some ([], Some (UnmarshalTypeError e)))
   \<and> (\<exists>ms. processVRRPInfo [] ''[{"vrid":1,"bogus":[1,2],"v4":{"status":"Backup"}}]''
           getVRRPDesc = Some ([] @ ms, None))\<close>
proof (intro conjI)
  have p1: \<open>json_parse ''[{"vrid":1,'' = None\<close>
    by (simp add: fold_eval scan_eval)
  show \<open>processVRRPInfo [] ''[{"vrid":1,'' getVRRPDesc = Some ([], Some SyntaxError)\<close>
    using C5_decode_error_iff_ill_typed
      [where b = \<open>''[{"vrid":1,''\<close> and ch = "[]", THEN conjunct1]
    by (simp only: p1 option.case)
  have p2: \<open>json_parse ''[{"vrid":"1"}]'' = Some (JArray [JObject [(''vrid'', JString ''1'')]])\<close>
    by (simp add: fold_eval scan_eval)
  have w2: "\<not> wellTyped_input (JArray [JObject [(''vrid'', JString ''1'')]])"
    by (simp add: shape_eval fold_eval)
  show \<open>\<exists>e. processVRRPInfo [] ''[{"vrid":"1"}]'' getVRRPDesc
          = Some ([], Some (UnmarshalTypeError e))\<close>
    using C5_decode_error_iff_ill_typed
      [where b = \<open>''[{"vrid":"1"}]''\<close> and ch = "[]", THEN conjunct1]
    by (simp only: p2 option.case w2 if_False)
  have p3: \<open>json_parse ''[{"vrid":1,"bogus":[1,2],"v4":{"status":"Backup"}}]''
     = Some (JArray [JObject [(''vrid'', JNumber ''1''),
                              (''bogus'', JArray [JNumber ''1'', JNumber ''2'']),
                              (''v4'', JObject [(''status'', JString ''Backup'')])]])\<close>
    by (simp add: fold_eval scan_eval)
  have w3: "wellTyped_input (JArray [JObject [(''vrid'', JNumber ''1''),
                              (''bogus'', JArray [JNumber ''1'', JNumber ''2'']),
                              (''v4'', JObject [(''status'', JString ''Backup'')])]])"
    by (simp add: shape_eval fold_eval isDigit_def)
  show \<open>\<exists>ms. processVRRPInfo [] ''[{"vrid":1,"bogus":[1,2],"v4":{"status":"Backup"}}]''
           getVRRPDesc = Some ([] @ ms, None)\<close>
    using C5_decode_error_iff_ill_typed
      [where b = \<open>''[{"vrid":1,"bogus":[1,2],"v4":{"status":"Backup"}}]''\<close>
         and ch = "[]", THEN conjunct1]
    by (simp only: p3 option.case w3 if_True)
qed

end
